theory Spec2Isabelle
  imports Complex_Main
begin

section \<open>JavaScript numbers and strings\<close>

text \<open>
  A JavaScript \<open>number\<close>: \<open>NaN\<close>, the two infinities, or a finite binary64 value,
  held as the real number it denotes. The sign of zero is not modelled.
\<close>

datatype jsnum = NaN | NegInf | Fin real | PosInf

text \<open>
  Rounding of a real number to binary64: to the nearest representable value, ties to the
  even significand, with gradual underflow (the exponent of the last place is at least
  \<open>-1074\<close>) and overflow to infinity. \<open>expo x\<close> is the exponent of the last place of
  the binade of \<open>x\<close>, found by counting up from \<open>-1074\<close>; \<open>nearest x\<close> is the nearest
  multiple of \<open>2 ^ expo x\<close>.
\<close>

definition pow2 :: "int \<Rightarrow> real" where
  "pow2 e = (if 0 \<le> e then 2 ^ nat e else 1 / 2 ^ nat (- e))"

definition roundHalfEven :: "real \<Rightarrow> int" where
  "roundHalfEven y =
     (let f = \<lfloor>y\<rfloor>; d = y - of_int f
      in if d < 1 / 2 then f else if 1 / 2 < d then f + 1 else if even f then f else f + 1)"

fun expoFrom :: "nat \<Rightarrow> int \<Rightarrow> real \<Rightarrow> int" where
  "expoFrom 0 e a = e"
| "expoFrom (Suc n) e a = (if pow2 (e + 53) \<le> a then expoFrom n (e + 1) a else e)"

definition expo :: "real \<Rightarrow> int" where
  "expo x = expoFrom 2046 (- 1074) \<bar>x\<bar>"

definition nearest :: "real \<Rightarrow> real" where
  "nearest x = (let e = expo x in of_int (roundHalfEven (x / pow2 e)) * pow2 e)"

definition fl :: "real \<Rightarrow> jsnum" where
  "fl x =
     (let r = nearest x
      in if pow2 1024 \<le> r then PosInf else if r \<le> - pow2 1024 then NegInf else Fin r)"

text \<open>
  \<open>a - b\<close>, as \<open>getSpan\<close> and the sort comparator apply it to numbers read from
  grid lines; the difference of two finite numbers is kept exact.
\<close>

fun jsub :: "jsnum \<Rightarrow> jsnum \<Rightarrow> jsnum" where
  "jsub NaN _ = NaN"
| "jsub _ NaN = NaN"
| "jsub (Fin a) (Fin b) = Fin (a - b)"
| "jsub (Fin a) PosInf = NegInf"
| "jsub (Fin a) NegInf = PosInf"
| "jsub PosInf PosInf = NaN"
| "jsub PosInf _ = PosInf"
| "jsub NegInf NegInf = NaN"
| "jsub NegInf _ = NegInf"

text \<open>\<open>a < b\<close>: false as soon as one side is \<open>NaN\<close>.\<close>

fun jlt :: "jsnum \<Rightarrow> jsnum \<Rightarrow> bool" where
  "jlt NaN _ = False"
| "jlt _ NaN = False"
| "jlt (Fin a) (Fin b) = (a < b)"
| "jlt NegInf NegInf = False"
| "jlt NegInf _ = True"
| "jlt _ NegInf = False"
| "jlt PosInf _ = False"
| "jlt _ PosInf = True"

text \<open>\<open>a > b\<close> and \<open>Number.isNaN(a)\<close>.\<close>

definition jgt :: "jsnum \<Rightarrow> jsnum \<Rightarrow> bool" where
  "jgt a b = jlt b a"

definition isNaN :: "jsnum \<Rightarrow> bool" where
  "isNaN x = (x = NaN)"

text \<open>
  Strings are the UTF-8 bytes of the text. \<open>s.trim()\<close> removes the ECMAScript white
  space and line terminators from both ends: TAB, LF, VT, FF, CR, SP, U+00A0, U+1680,
  U+2000 to U+200A, U+2028, U+2029, U+202F, U+205F, U+3000 and U+FEFF.
\<close>

definition whiteSpaceCodes :: "string list" where
  "whiteSpaceCodes =
     [[CHR 0x09], [CHR 0x0A], [CHR 0x0B], [CHR 0x0C], [CHR 0x0D], [CHR 0x20],
      [CHR 0xC2, CHR 0xA0], [CHR 0xE1, CHR 0x9A, CHR 0x80],
      [CHR 0xE2, CHR 0x80, CHR 0x80], [CHR 0xE2, CHR 0x80, CHR 0x81],
      [CHR 0xE2, CHR 0x80, CHR 0x82], [CHR 0xE2, CHR 0x80, CHR 0x83],
      [CHR 0xE2, CHR 0x80, CHR 0x84], [CHR 0xE2, CHR 0x80, CHR 0x85],
      [CHR 0xE2, CHR 0x80, CHR 0x86], [CHR 0xE2, CHR 0x80, CHR 0x87],
      [CHR 0xE2, CHR 0x80, CHR 0x88], [CHR 0xE2, CHR 0x80, CHR 0x89],
      [CHR 0xE2, CHR 0x80, CHR 0x8A], [CHR 0xE2, CHR 0x80, CHR 0xA8],
      [CHR 0xE2, CHR 0x80, CHR 0xA9], [CHR 0xE2, CHR 0x80, CHR 0xAF],
      [CHR 0xE2, CHR 0x81, CHR 0x9F], [CHR 0xE3, CHR 0x80, CHR 0x80],
      [CHR 0xEF, CHR 0xBB, CHR 0xBF]]"

fun stripPrefixOf :: "string list \<Rightarrow> string \<Rightarrow> string option" where
  "stripPrefixOf [] s = None"
| "stripPrefixOf (p # ps) s =
     (if p \<noteq> [] \<and> take (length p) s = p then Some (drop (length p) s)
      else stripPrefixOf ps s)"

function trimWith :: "string list \<Rightarrow> string \<Rightarrow> string" where
  "trimWith ps s =
     (case stripPrefixOf ps s of
        Some rest \<Rightarrow> if length rest < length s then trimWith ps rest else s
      | None \<Rightarrow> s)"
  by pat_completeness auto
termination
  by (relation "measure (\<lambda>(ps, s). length s)") auto

declare trimWith.simps [simp del]

definition trim :: "string \<Rightarrow> string" where
  "trim s = rev (trimWith (map rev whiteSpaceCodes) (rev (trimWith whiteSpaceCodes s)))"

text \<open>
  \<open>Number(str)\<close> on a string (ECMAScript StringToNumber): white space is trimmed, the
  empty string is 0, then an unsigned hexadecimal, octal or binary integer literal, or a
  signed decimal literal with optional fraction and exponent, or a signed \<open>Infinity\<close>;
  anything else is \<open>NaN\<close>. The mathematical value of a literal is rounded to binary64.
\<close>

definition digitValue :: "char \<Rightarrow> nat option" where
  "digitValue c =
     (let n = (of_char c :: nat) in
      if 48 \<le> n \<and> n \<le> 57 then Some (n - 48)
      else if 97 \<le> n \<and> n \<le> 102 then Some (n - 87)
      else if 65 \<le> n \<and> n \<le> 70 then Some (n - 55)
      else None)"

fun digitsValue :: "nat \<Rightarrow> nat \<Rightarrow> string \<Rightarrow> nat option" where
  "digitsValue radix acc [] = Some acc"
| "digitsValue radix acc (c # cs) =
     (case digitValue c of
        None \<Rightarrow> None
      | Some d \<Rightarrow> if d < radix then digitsValue radix (acc * radix + d) cs else None)"

definition unsignedInteger :: "nat \<Rightarrow> string \<Rightarrow> nat option" where
  "unsignedInteger radix s = (if s = [] then None else digitsValue radix 0 s)"

definition splitAt :: "(char \<Rightarrow> bool) \<Rightarrow> string \<Rightarrow> string \<times> string option" where
  "splitAt p s =
     (case dropWhile (\<lambda>c. \<not> p c) s of
        [] \<Rightarrow> (s, None)
      | _ # rest \<Rightarrow> (takeWhile (\<lambda>c. \<not> p c) s, Some rest))"

definition signedPart :: "string \<Rightarrow> bool \<times> string" where
  "signedPart s =
     (case s of
        c # cs \<Rightarrow>
          if c = CHR ''-'' then (True, cs) else if c = CHR ''+'' then (False, cs) else (False, s)
      | [] \<Rightarrow> (False, s))"

definition exponentValue :: "string option \<Rightarrow> int option" where
  "exponentValue e =
     (case e of
        None \<Rightarrow> Some 0
      | Some s \<Rightarrow>
          (case signedPart s of (neg, ds) \<Rightarrow>
             (case unsignedInteger 10 ds of
                None \<Rightarrow> None
              | Some n \<Rightarrow> Some (if neg then - int n else int n))))"

definition mantissaValue :: "string \<Rightarrow> real option" where
  "mantissaValue m =
     (case splitAt (\<lambda>c. c = CHR ''.'') m of
        (ip, None) \<Rightarrow> map_option real (unsignedInteger 10 ip)
      | (ip, Some fp) \<Rightarrow>
          if ip = [] \<and> fp = [] then None
          else (case (digitsValue 10 0 ip, digitsValue 10 0 fp) of
                  (Some a, Some b) \<Rightarrow> Some (real a + real b / 10 ^ length fp)
                | _ \<Rightarrow> None))"

definition decimalLiteral :: "string \<Rightarrow> jsnum" where
  "decimalLiteral s =
     (case signedPart s of (neg, body) \<Rightarrow>
        if body = ''Infinity'' then (if neg then NegInf else PosInf)
        else (case splitAt (\<lambda>c. c = CHR ''e'' \<or> c = CHR ''E'') body of (m, e) \<Rightarrow>
                (case (mantissaValue m, exponentValue e) of
                   (Some v, Some k) \<Rightarrow>
                     fl ((if neg then - v else v)
                         * (if 0 \<le> k then 10 ^ nat k else 1 / 10 ^ nat (- k)))
                 | _ \<Rightarrow> NaN)))"

definition js_Number :: "string \<Rightarrow> jsnum" where
  "js_Number str =
     (let s = trim str in
      if s = [] then Fin 0
      else if take 2 s = ''0x'' \<or> take 2 s = ''0X'' then
        (case unsignedInteger 16 (drop 2 s) of Some n \<Rightarrow> fl (real n) | None \<Rightarrow> NaN)
      else if take 2 s = ''0o'' \<or> take 2 s = ''0O'' then
        (case unsignedInteger 8 (drop 2 s) of Some n \<Rightarrow> fl (real n) | None \<Rightarrow> NaN)
      else if take 2 s = ''0b'' \<or> take 2 s = ''0B'' then
        (case unsignedInteger 2 (drop 2 s) of Some n \<Rightarrow> fl (real n) | None \<Rightarrow> NaN)
      else decimalLiteral s)"


text \<open>\<open>String(n)\<close> for a natural number and for an integer: the decimal digits.\<close>

definition digitChar :: "nat \<Rightarrow> char" where
  "digitChar d = ''0123456789'' ! d"

function showNat :: "nat \<Rightarrow> string" where
  "showNat n = (if n < 10 then [digitChar n] else showNat (n div 10) @ [digitChar (n mod 10)])"
  by pat_completeness auto
termination
  by (relation "measure (\<lambda>n. n)") auto

declare showNat.simps [simp del]

definition showInt :: "int \<Rightarrow> string" where
  "showInt i = (if i < 0 then CHR ''-'' # showNat (nat (- i)) else showNat (nat i))"

section \<open>Data model (src/lib/types.ts, src/lib/constants.ts)\<close>

datatype Breakpoint = Xs | Sm | Md | Lg | Xl | Xxl

definition BREAKPOINT_ORDER :: "Breakpoint list" where
  "BREAKPOINT_ORDER = [Xs, Sm, Md, Lg, Xl, Xxl]"

record ItemLayout =
  colStart :: string
  colEnd :: string
  rowStart :: string
  rowEnd :: string
  colSpan :: jsnum
  rowSpan :: jsnum
  order :: string

text \<open>
  \<open>Record<Breakpoint, T>\<close>: an object with one entry for each breakpoint, read with
  \<open>m[bp]\<close>. The object literal \<open>{}\<close> that the constructors start from has no entry;
  what it would return for a key is left unspecified, and the constructors are shown to
  overwrite every key.
\<close>

type_synonym LayoutMap = "Breakpoint \<Rightarrow> ItemLayout"

definition emptyObject :: "Breakpoint \<Rightarrow> 'a" where
  "emptyObject = (\<lambda>bp. undefined)"

datatype TrackUnit = Fr | Px | Rem | Percent | Auto | MinContent | MaxContent

record Track =
  tid :: string
  tvalue :: real
  tunit :: TrackUnit

record GridSetting =
  cols :: int
  rows :: int
  colTracks :: "Track list"
  rowTracks :: "Track list"
  gap :: int

type_synonym GridSettingsMap = "Breakpoint \<Rightarrow> GridSetting"

text \<open>
  \<open>GridItem\<close>: \<open>subGrid\<close> and \<open>children\<close> are optional properties, \<open>None\<close> when the
  property is absent or \<open>undefined\<close>. Item ids are numbers compared with \<open>===\<close>.
\<close>

datatype GridItem =
  GridItem (item_id: real) (color: string) (layout: LayoutMap)
           (subGrid: "GridSettingsMap option") (children: "GridItem list option")

section \<open>Layout algebra (src/lib/grid.ts)\<close>

definition clamp :: "'a::linorder \<Rightarrow> 'a \<Rightarrow> 'a \<Rightarrow> 'a" where
  "clamp v lo hi = min (max v lo) hi"

definition isAuto :: "string \<Rightarrow> bool" where
  "isAuto v = (v = [] \<or> v = ''auto'')"

definition createEmptyLayout :: ItemLayout where
  "createEmptyLayout =
     \<lparr>colStart = ''auto'', colEnd = ''auto'', rowStart = ''auto'', rowEnd = ''auto'',
      colSpan = Fin 1, rowSpan = Fin 1, order = ''auto''\<rparr>"

definition createLayoutMap :: LayoutMap where
  "createLayoutMap = foldl (\<lambda>m bp. m(bp := createEmptyLayout)) emptyObject BREAKPOINT_ORDER"

definition cloneLayoutMap :: "LayoutMap \<Rightarrow> LayoutMap" where
  "cloneLayoutMap l = foldl (\<lambda>cloned bp. cloned(bp := l bp)) emptyObject BREAKPOINT_ORDER"

text \<open>
  \<open>Partial<ItemLayout>\<close>: each property present (\<open>Some\<close>) or absent, and
  \<open>Partial<Record<Breakpoint, Partial<ItemLayout>>>\<close>: each breakpoint present or absent.
  The spread \<open>{...a, ...b}\<close> takes every property present in \<open>b\<close> and the others
  from \<open>a\<close>.
\<close>

record PartialItemLayout =
  p_colStart :: "string option"
  p_colEnd :: "string option"
  p_rowStart :: "string option"
  p_rowEnd :: "string option"
  p_colSpan :: "jsnum option"
  p_rowSpan :: "jsnum option"
  p_order :: "string option"

definition orElse :: "'a option \<Rightarrow> 'a \<Rightarrow> 'a" where
  "orElse x d = (case x of Some v \<Rightarrow> v | None \<Rightarrow> d)"

definition spreadLayout :: "ItemLayout \<Rightarrow> PartialItemLayout \<Rightarrow> ItemLayout" where
  "spreadLayout a b =
     \<lparr>colStart = orElse (p_colStart b) (colStart a), colEnd = orElse (p_colEnd b) (colEnd a),
      rowStart = orElse (p_rowStart b) (rowStart a), rowEnd = orElse (p_rowEnd b) (rowEnd a),
      colSpan = orElse (p_colSpan b) (colSpan a), rowSpan = orElse (p_rowSpan b) (rowSpan a),
      order = orElse (p_order b) (order a)\<rparr>"

definition sanitizeLayoutMap ::
  "(Breakpoint \<Rightarrow> PartialItemLayout option) option \<Rightarrow> LayoutMap" where
  "sanitizeLayoutMap lay =
     (let sanitized = createLayoutMap in
      case lay of
        None \<Rightarrow> sanitized
      | Some l \<Rightarrow>
          foldl (\<lambda>sanitized bp.
                   case l bp of
                     Some lbp \<Rightarrow> sanitized(bp := spreadLayout (sanitized bp) lbp)
                   | None \<Rightarrow> sanitized)
                sanitized BREAKPOINT_ORDER)"



section \<open>History engine (src/hooks/useHistory.ts)\<close>

text \<open>
  \<open>HistoryState<T>\<close>. The type parameter stands for the snapshot objects held by the
  hook; the reducer compares them with \<open>===\<close>, that is by reference, so a value of
  type \<open>'a\<close> is one object identity and HOL equality on \<open>'a\<close> is \<open>===\<close>.
\<close>

record 'a HistoryState =
  past :: "'a list"
  present :: "'a"
  future :: "'a list"

datatype 'a HistoryAction = UNDO | REDO | SET 'a | RESET 'a

fun historyReducer :: "'a HistoryState \<Rightarrow> 'a HistoryAction \<Rightarrow> 'a HistoryState" where
  "historyReducer state UNDO =
     (if length (past state) = 0 then state
      else let previous = past state ! (length (past state) - 1);
               newPast = take (length (past state) - 1) (past state)
           in \<lparr>past = newPast, present = previous, future = present state # future state\<rparr>)"
| "historyReducer state REDO =
     (if length (future state) = 0 then state
      else let next = future state ! 0;
               newFuture = drop 1 (future state)
           in \<lparr>past = past state @ [present state], present = next, future = newFuture\<rparr>)"
| "historyReducer state (SET newPresent) =
     (if newPresent = present state then state
      else \<lparr>past = past state @ [present state], present = newPresent, future = []\<rparr>)"
| "historyReducer state (RESET newPresent) =
     \<lparr>past = [], present = newPresent, future = []\<rparr>"

section \<open>Tree mutation engine (hook \<open>useGridState\<close>)\<close>

text \<open>
  The hook keeps \<open>{items, gridSettings}\<close> in the history and the current breakpoint in
  component state. Each operation below is the function the hook passes to \<open>setItems\<close>
  or \<open>setGridSettings\<close>: from the previous value to the next one, with the current
  breakpoint and the values read from the clock and the random generator as arguments.
\<close>

record GridState =
  items :: "GridItem list"
  gridSettings :: GridSettingsMap

record Env =
  now :: nat  \<comment> \<open>\<open>Date.now()\<close>, milliseconds\<close>
  random :: real  \<comment> \<open>\<open>Math.random()\<close>, in \<open>[0, 1)\<close>\<close>
  loadTime :: nat  \<comment> \<open>\<open>Date.now()\<close> when the constants module was loaded\<close>

definition COLORS :: "string list" where
  "COLORS = [''bg-blue-500'', ''bg-purple-500'', ''bg-pink-500'', ''bg-red-500'',
     ''bg-orange-500'', ''bg-yellow-500'', ''bg-green-500'', ''bg-teal-500'', ''bg-cyan-500'',
     ''bg-indigo-500'', ''bg-violet-500'', ''bg-fuchsia-500'']"

definition createTracks :: "nat \<Rightarrow> nat \<Rightarrow> Track list" where
  "createTracks t count =
     map (\<lambda>i. \<lparr>tid = ''track-'' @ showNat t @ ''-'' @ showNat i, tvalue = 1, tunit = Fr\<rparr>)
         [0..<count]"

definition DEFAULT_GRID_SETTINGS :: "nat \<Rightarrow> GridSettingsMap" where
  "DEFAULT_GRID_SETTINGS t = (\<lambda>bp.
     case bp of
       Xs \<Rightarrow> \<lparr>cols = 1, rows = 1, colTracks = createTracks t 1, rowTracks = createTracks t 1, gap = 4\<rparr>
     | _ \<Rightarrow> \<lparr>cols = 4, rows = 4, colTracks = createTracks t 4, rowTracks = createTracks t 4, gap = 4\<rparr>)"

definition copyTrack :: "Track \<Rightarrow> Track" where
  "copyTrack t = \<lparr>tid = tid t, tvalue = tvalue t, tunit = tunit t\<rparr>"

definition cloneGridSettings :: "GridSettingsMap \<Rightarrow> GridSettingsMap" where
  "cloneGridSettings settings =
     foldl (\<lambda>copy bp.
              let setting = settings bp
              in copy(bp := setting\<lparr>colTracks := map copyTrack (colTracks setting),
                                    rowTracks := map copyTrack (rowTracks setting)\<rparr>))
           emptyObject BREAKPOINT_ORDER"

text \<open>Object spreads \<open>{...item, key: v}\<close> on an item.\<close>

definition withLayout :: "GridItem \<Rightarrow> LayoutMap \<Rightarrow> GridItem" where
  "withLayout item l = GridItem (item_id item) (color item) l (subGrid item) (children item)"

definition withChildren :: "GridItem \<Rightarrow> GridItem list option \<Rightarrow> GridItem" where
  "withChildren item c = GridItem (item_id item) (color item) (layout item) (subGrid item) c"

definition withSubGrid :: "GridItem \<Rightarrow> GridSettingsMap option \<Rightarrow> GridItem" where
  "withSubGrid item g = GridItem (item_id item) (color item) (layout item) g (children item)"

subsection \<open>Reflow\<close>

definition parsePosition :: "string \<Rightarrow> jsnum" where
  "parsePosition v = (let num = js_Number v in if isNaN num then PosInf else num)"

record SortEntry =
  e_id :: real
  e_row :: jsnum
  e_col :: jsnum
  e_index :: nat

text \<open>\<open>a === b\<close> on numbers: \<open>NaN\<close> is not identical to itself.\<close>

definition jeq :: "jsnum \<Rightarrow> jsnum \<Rightarrow> bool" where
  "jeq a b = (a \<noteq> NaN \<and> a = b)"

definition compareEntries :: "SortEntry \<Rightarrow> SortEntry \<Rightarrow> jsnum" where
  "compareEntries a b =
     (if jeq (e_row a) (e_row b) then
        (if jeq (e_col a) (e_col b) then Fin (real (e_index a) - real (e_index b))
         else jsub (e_col a) (e_col b))
      else jsub (e_row a) (e_row b))"

text \<open>
  \<open>Array.prototype.sort(comparefn)\<close>: a stable sort, \<open>a\<close> placed after \<open>b\<close> when
  \<open>comparefn(a, b) > 0\<close>. For a consistent comparator the language fixes the result;
  insertion from the right is one implementation of it.
\<close>

fun insertSorted :: "('a \<Rightarrow> 'a \<Rightarrow> jsnum) \<Rightarrow> 'a \<Rightarrow> 'a list \<Rightarrow> 'a list" where
  "insertSorted cmp x [] = [x]"
| "insertSorted cmp x (y # ys) =
     (if jgt (cmp x y) (Fin 0) then y # insertSorted cmp x ys else x # y # ys)"

definition js_sort :: "('a \<Rightarrow> 'a \<Rightarrow> jsnum) \<Rightarrow> 'a list \<Rightarrow> 'a list" where
  "js_sort cmp xs = foldr (insertSorted cmp) xs []"

text \<open>
  A \<open>Map\<close>: its entries in insertion order; \<open>set\<close> on a key already there replaces the
  value in place.
\<close>

fun map_set :: "'k \<Rightarrow> 'v \<Rightarrow> ('k \<times> 'v) list \<Rightarrow> ('k \<times> 'v) list" where
  "map_set k v [] = [(k, v)]"
| "map_set k v ((k', v') # m) = (if k' = k then (k, v) # m else (k', v') # map_set k v m)"

definition map_get :: "('k \<times> 'v) list \<Rightarrow> 'k \<Rightarrow> 'v option" where
  "map_get m k = map_of m k"

definition map_size :: "('k \<times> 'v) list \<Rightarrow> nat" where
  "map_size m = length m"

definition sortEntries :: "GridItem list \<Rightarrow> Breakpoint \<Rightarrow> SortEntry list" where
  "sortEntries list bp =
     map (\<lambda>(index, item).
            \<lparr>e_id = item_id item,
             e_row = parsePosition (rowStart (layout item bp)),
             e_col = parsePosition (colStart (layout item bp)),
             e_index = index\<rparr>)
         (enumerate 0 list)"

definition buildOrderMap :: "SortEntry list \<Rightarrow> (real \<times> nat) list" where
  "buildOrderMap entries =
     foldl (\<lambda>orderMap (idx, entry). map_set (e_id entry) (idx + 1) orderMap) []
           (enumerate 0 entries)"

definition reflowOrders :: "GridItem list \<Rightarrow> Breakpoint \<Rightarrow> GridItem list" where
  "reflowOrders list bp =
     (let sorted = js_sort compareEntries (sortEntries list bp);
          orderMap = buildOrderMap sorted
      in map (\<lambda>item.
                let layouts = layout item;
                    currentOrder = orElse (map_get orderMap (item_id item)) (map_size orderMap + 1)
                in withLayout item (layouts(bp := (layouts bp)\<lparr>order := showNat currentOrder\<rparr>)))
             list)"

subsection \<open>Recursive helpers\<close>

lemma children_size_less:
  "item \<in> set list \<Longrightarrow> children item = Some ch \<Longrightarrow> size_list size ch < size_list size list"
proof -
  assume mem: "item \<in> set list" and ch: "children item = Some ch"
  have "size_list size ch < size item"
    using ch by (cases item) simp
  moreover have "size item \<le> size_list size list"
    using mem by (simp add: size_list_estimation')
  ultimately show ?thesis by simp
qed

function updateItemRecursive ::
  "GridItem list \<Rightarrow> real \<Rightarrow> (GridItem \<Rightarrow> GridItem) \<Rightarrow> GridItem list" where
  "updateItemRecursive list itemId cb =
     map (\<lambda>item.
            if item_id item = itemId then cb item
            else (case children item of
                    Some ch \<Rightarrow> withChildren item (Some (updateItemRecursive ch itemId cb))
                  | None \<Rightarrow> item))
         list"
  by pat_completeness auto
termination
  by (relation "measure (\<lambda>(list, itemId, cb). size_list size list)")
     (auto intro: children_size_less)

declare updateItemRecursive.simps [simp del]

text \<open>\<open>findIndex\<close>: the first index whose element satisfies the test, or \<open>-1\<close>.\<close>

fun findIndex :: "('a \<Rightarrow> bool) \<Rightarrow> 'a list \<Rightarrow> int" where
  "findIndex p [] = - 1"
| "findIndex p (x # xs) =
     (if p x then 0 else (let r = findIndex p xs in if r = - 1 then - 1 else r + 1))"

lemma findIndex_range:
  "findIndex p xs \<noteq> - 1 \<Longrightarrow> 0 \<le> findIndex p xs \<and> nat (findIndex p xs) < length xs"
  by (induction xs) (auto simp: Let_def split: if_splits)

lemma findIndex_found:
  "findIndex p xs \<noteq> - 1 \<Longrightarrow> xs ! nat (findIndex p xs) \<in> set xs \<and> p (xs ! nat (findIndex p xs))"
proof (induction xs)
  case Nil
  then show ?case by simp
next
  case (Cons x xs)
  show ?case
  proof (cases "p x")
    case True
    then show ?thesis by simp
  next
    case False
    with Cons.prems have ne: "findIndex p xs \<noteq> - 1"
      by (auto simp: Let_def split: if_splits)
    from findIndex_range [OF ne] have "nat (findIndex p xs + 1) = Suc (nat (findIndex p xs))"
      by arith
    with False ne Cons.IH [OF ne] show ?thesis
      by (simp add: Let_def)
  qed
qed

lemma findIndex_none: "findIndex p xs = - 1 \<longleftrightarrow> (\<forall>x \<in> set xs. \<not> p x)"
proof (induction xs)
  case Nil
  then show ?case by simp
next
  case (Cons x xs)
  have "findIndex p xs + 1 \<noteq> - 1" if "findIndex p xs \<noteq> - 1"
    using findIndex_range [OF that] by simp
  with Cons show ?case
    by (auto simp: Let_def)
qed

subsection \<open>Layout updates\<close>

function updateAndReflow ::
  "real \<Rightarrow> Breakpoint \<Rightarrow> (ItemLayout \<Rightarrow> ItemLayout) \<Rightarrow> GridItem list \<Rightarrow> GridItem list" where
  "updateAndReflow itemId breakpoint cb list =
     (let index = findIndex (\<lambda>i. item_id i = itemId) list in
      if index \<noteq> - 1 then
        (let updatedList =
               map (\<lambda>item.
                      if item_id item \<noteq> itemId then item
                      else (let layouts = layout item
                            in withLayout item (layouts(breakpoint := cb (layouts breakpoint)))))
                   list
         in reflowOrders updatedList breakpoint)
      else
        map (\<lambda>item.
               case children item of
                 Some ch \<Rightarrow> withChildren item (Some (updateAndReflow itemId breakpoint cb ch))
               | None \<Rightarrow> item)
            list)"
  by pat_completeness auto
termination
  by (relation "measure (\<lambda>(itemId, breakpoint, cb, list). size_list size list)")
     (auto intro: children_size_less)

declare updateAndReflow.simps [simp del]

definition mutateLayout ::
  "GridItem list \<Rightarrow> real \<Rightarrow> Breakpoint \<Rightarrow> (ItemLayout \<Rightarrow> ItemLayout) \<Rightarrow> GridItem list" where
  "mutateLayout prev itemId breakpoint cb = updateAndReflow itemId breakpoint cb prev"

datatype LayoutField =
  F_colStart | F_colEnd | F_rowStart | F_rowEnd | F_colSpan | F_rowSpan | F_order

definition updateItemLayout ::
  "GridItem list \<Rightarrow> Breakpoint \<Rightarrow> real \<Rightarrow> LayoutField \<Rightarrow> string \<Rightarrow> GridItem list" where
  "updateItemLayout prev currentBreakpoint itemId field v =
     mutateLayout prev itemId currentBreakpoint (\<lambda>lay.
       if field = F_colSpan \<or> field = F_rowSpan then
         (let parsed = js_Number v;
              n = (if isNaN parsed \<or> jlt parsed (Fin 1) then Fin 1 else parsed)
          in if field = F_colSpan then lay\<lparr>colSpan := n\<rparr> else lay\<lparr>rowSpan := n\<rparr>)
       else
         (let payload = (if v = [] \<or> v = ''auto'' then ''auto'' else v)
          in case field of
               F_colStart \<Rightarrow> lay\<lparr>colStart := payload\<rparr>
             | F_colEnd \<Rightarrow> lay\<lparr>colEnd := payload\<rparr>
             | F_rowStart \<Rightarrow> lay\<lparr>rowStart := payload\<rparr>
             | F_rowEnd \<Rightarrow> lay\<lparr>rowEnd := payload\<rparr>
             | _ \<Rightarrow> lay\<lparr>order := payload\<rparr>))"

subsection \<open>Add, remove, duplicate, convert\<close>

text \<open>\<open>!parentId\<close> for an optional number: absent, or zero.\<close>

definition falsyId :: "real option \<Rightarrow> bool" where
  "falsyId i = (case i of None \<Rightarrow> True | Some v \<Rightarrow> v = 0)"

definition addItem :: "Env \<Rightarrow> Breakpoint \<Rightarrow> GridItem list \<Rightarrow> real option \<Rightarrow> GridItem list" where
  "addItem env currentBreakpoint prev parentId =
     (let newItem = GridItem (real (now env))
                      (COLORS ! nat \<lfloor>random env * real (length COLORS)\<rfloor>)
                      createLayoutMap None None
      in if falsyId parentId then reflowOrders (prev @ [newItem]) currentBreakpoint
         else updateItemRecursive prev (the parentId) (\<lambda>parent.
                withChildren parent
                  (Some (reflowOrders (orElse (children parent) [] @ [newItem]) currentBreakpoint))))"

function removeRecursive :: "real \<Rightarrow> GridItem list \<Rightarrow> GridItem list" where
  "removeRecursive itemId list =
     map (\<lambda>item.
            withChildren item
              (case children item of
                 Some ch \<Rightarrow> Some (removeRecursive itemId ch)
               | None \<Rightarrow> None))
         (filter (\<lambda>item. item_id item \<noteq> itemId) list)"
  by pat_completeness auto
termination
  by (relation "measure (\<lambda>(itemId, list). size_list size list)")
     (auto intro: children_size_less)

declare removeRecursive.simps [simp del]

definition removeItem :: "GridItem list \<Rightarrow> real \<Rightarrow> GridItem list" where
  "removeItem prev itemId = removeRecursive itemId prev"

function duplicateRecursive :: "Env \<Rightarrow> Breakpoint \<Rightarrow> real \<Rightarrow> GridItem list \<Rightarrow> GridItem list" where
  "duplicateRecursive env currentBreakpoint itemId list =
     (let index = findIndex (\<lambda>i. item_id i = itemId) list in
      if index \<noteq> - 1 then
        (let item = list ! nat index;
             clone = GridItem (real (now env) + random env) (color item)
                       (cloneLayoutMap (layout item)) (subGrid item)
                       (case children item of
                          Some ch \<Rightarrow> Some (duplicateRecursive env currentBreakpoint itemId ch)
                        | None \<Rightarrow> None)
         in reflowOrders (list @ [clone]) currentBreakpoint)
      else
        map (\<lambda>item.
               case children item of
                 Some ch \<Rightarrow> withChildren item (Some (duplicateRecursive env currentBreakpoint itemId ch))
               | None \<Rightarrow> item)
            list)"
  by pat_completeness auto

termination
proof (relation "measure (\<lambda>(env, currentBreakpoint, itemId, list). size_list size list)")
  show "wf (measure (\<lambda>(env, currentBreakpoint, itemId, list). size_list size list))"
    by simp
next
  fix env :: Env and currentBreakpoint :: Breakpoint and itemId :: real
    and list :: "GridItem list" and index :: int and item :: GridItem and ch :: "GridItem list"
  assume "index = findIndex (\<lambda>i. item_id i = itemId) list" "index \<noteq> - 1"
    "item = list ! nat index" "children item = Some ch"
  then have "item \<in> set list"
    using findIndex_found [of "\<lambda>i. item_id i = itemId" list] by simp
  with \<open>children item = Some ch\<close>
  show "((env, currentBreakpoint, itemId, ch), (env, currentBreakpoint, itemId, list))
        \<in> measure (\<lambda>(env, currentBreakpoint, itemId, list). size_list size list)"
    by (simp add: children_size_less)
next
  fix env :: Env and currentBreakpoint :: Breakpoint and itemId :: real
    and list :: "GridItem list" and index :: int and item :: GridItem and ch :: "GridItem list"
  assume "item \<in> set list" "children item = Some ch"
  then show "((env, currentBreakpoint, itemId, ch), (env, currentBreakpoint, itemId, list))
        \<in> measure (\<lambda>(env, currentBreakpoint, itemId, list). size_list size list)"
    by (simp add: children_size_less)
qed

declare duplicateRecursive.simps [simp del]

definition duplicateItem :: "Env \<Rightarrow> Breakpoint \<Rightarrow> GridItem list \<Rightarrow> real \<Rightarrow> GridItem list" where
  "duplicateItem env currentBreakpoint prev itemId =
     duplicateRecursive env currentBreakpoint itemId prev"

definition convertItemToGrid :: "Env \<Rightarrow> GridItem list \<Rightarrow> real \<Rightarrow> GridItem list" where
  "convertItemToGrid env prev itemId =
     updateItemRecursive prev itemId (\<lambda>item.
       GridItem (item_id item) (color item) (layout item)
         (Some (cloneGridSettings (DEFAULT_GRID_SETTINGS (loadTime env)))) (Some []))"

subsection \<open>Grid settings\<close>

text \<open>
  \<open>updateGridSetting(key, value, targetGridId?)\<close>: the key with its value. The ids of
  appended tracks come from the random generator: \<open>freshId k\<close> is the id drawn for the
  \<open>k\<close>-th appended track.
\<close>

datatype SettingUpdate =
  U_cols int | U_rows int | U_gap int | U_colTracks "Track list" | U_rowTracks "Track list"

text \<open>\<open>xs.slice(0, n)\<close>: a negative \<open>n\<close> counts from the end.\<close>

definition sliceTo :: "'a list \<Rightarrow> int \<Rightarrow> 'a list" where
  "sliceTo xs n = (if n < 0 then take (nat (int (length xs) + n)) xs else take (nat n) xs)"

definition addedTracks :: "(nat \<Rightarrow> string) \<Rightarrow> int \<Rightarrow> Track list" where
  "addedTracks freshId n = map (\<lambda>k. \<lparr>tid = freshId k, tvalue = 1, tunit = Fr\<rparr>) [0..<nat n]"

definition updateSettings ::
  "(nat \<Rightarrow> string) \<Rightarrow> Breakpoint \<Rightarrow> SettingUpdate \<Rightarrow> GridSettingsMap \<Rightarrow> GridSettingsMap" where
  "updateSettings freshId currentBreakpoint upd settingsMap =
     (let currentSettings = settingsMap currentBreakpoint;
          updates =
            (case upd of
               U_cols newCols \<Rightarrow>
                 (let oldTracks = colTracks currentSettings in
                  if newCols > int (length oldTracks) then
                    (\<lambda>s. s\<lparr>cols := newCols,
                            colTracks := oldTracks
                              @ addedTracks freshId (newCols - int (length oldTracks))\<rparr>)
                  else if newCols < int (length oldTracks) then
                    (\<lambda>s. s\<lparr>cols := newCols, colTracks := sliceTo oldTracks newCols\<rparr>)
                  else (\<lambda>s. s\<lparr>cols := newCols\<rparr>))
             | U_rows newRows \<Rightarrow>
                 (let oldTracks = rowTracks currentSettings in
                  if newRows > int (length oldTracks) then
                    (\<lambda>s. s\<lparr>rows := newRows,
                            rowTracks := oldTracks
                              @ addedTracks freshId (newRows - int (length oldTracks))\<rparr>)
                  else if newRows < int (length oldTracks) then
                    (\<lambda>s. s\<lparr>rows := newRows, rowTracks := sliceTo oldTracks newRows\<rparr>)
                  else (\<lambda>s. s\<lparr>rows := newRows\<rparr>))
             | U_colTracks ts \<Rightarrow> (\<lambda>s. s\<lparr>colTracks := ts, cols := int (length ts)\<rparr>)
             | U_rowTracks ts \<Rightarrow> (\<lambda>s. s\<lparr>rowTracks := ts, rows := int (length ts)\<rparr>)
             | U_gap g \<Rightarrow> (\<lambda>s. s\<lparr>gap := g\<rparr>))
      in settingsMap(currentBreakpoint := updates currentSettings))"

definition updateGridSetting ::
  "(nat \<Rightarrow> string) \<Rightarrow> Breakpoint \<Rightarrow> GridState \<Rightarrow> SettingUpdate \<Rightarrow> real option \<Rightarrow> GridState" where
  "updateGridSetting freshId currentBreakpoint st upd targetGridId =
     (if falsyId targetGridId then
        st\<lparr>gridSettings := updateSettings freshId currentBreakpoint upd (gridSettings st)\<rparr>
      else
        st\<lparr>items := updateItemRecursive (items st) (the targetGridId) (\<lambda>item.
              withSubGrid item
                (case subGrid item of
                   Some g \<Rightarrow> Some (updateSettings freshId currentBreakpoint upd g)
                 | None \<Rightarrow> None))\<rparr>)"

section \<open>Code generation (src/lib/grid.ts)\<close>

text \<open>
  Template literals turn numbers into text. For the integer fields of a grid setting and
  for item numbers that is the decimal digits (\<open>showInt\<close>, \<open>showNat\<close>); for a track
  value or a span, which may be any finite number, \<open>Number::toString\<close> is the parameter
  \<open>numToString\<close>.
\<close>

definition js_toString :: "(real \<Rightarrow> string) \<Rightarrow> jsnum \<Rightarrow> string" where
  "js_toString numToString x =
     (case x of
        NaN \<Rightarrow> ''NaN''
      | PosInf \<Rightarrow> ''Infinity''
      | NegInf \<Rightarrow> ''-Infinity''
      | Fin r \<Rightarrow> numToString r)"

definition newline :: string where
  "newline = [CHR 0x0A]"

definition prefixMap :: "Breakpoint \<Rightarrow> string" where
  "prefixMap bp =
     (case bp of Xs \<Rightarrow> [] | Sm \<Rightarrow> ''sm:'' | Md \<Rightarrow> ''md:'' | Lg \<Rightarrow> ''lg:'' | Xl \<Rightarrow> ''xl:''
      | Xxl \<Rightarrow> ''2xl:'')"

definition unitName :: "TrackUnit \<Rightarrow> string" where
  "unitName u =
     (case u of Fr \<Rightarrow> ''fr'' | Px \<Rightarrow> ''px'' | Rem \<Rightarrow> ''rem'' | Percent \<Rightarrow> ''%'' | Auto \<Rightarrow> ''auto''
      | MinContent \<Rightarrow> ''min-content'' | MaxContent \<Rightarrow> ''max-content'')"

fun join :: "string \<Rightarrow> string list \<Rightarrow> string" where
  "join sep [] = []"
| "join sep [x] = x"
| "join sep (x # y # ys) = x @ sep @ join sep (y # ys)"

definition getTrackString :: "(real \<Rightarrow> string) \<Rightarrow> Track list \<Rightarrow> string" where
  "getTrackString numToString tracks =
     join ''_''
       (map (\<lambda>t. if tunit t = Auto \<or> tunit t = MinContent \<or> tunit t = MaxContent
                  then unitName (tunit t)
                  else numToString (tvalue t) @ unitName (tunit t))
            tracks)"

definition isStandardTracks :: "Track list \<Rightarrow> bool" where
  "isStandardTracks tracks = list_all (\<lambda>t. tunit t = Fr \<and> tvalue t = 1) tracks"

record HeaderState =
  code :: string
  previousCols :: "string option"
  previousGap :: "int option"
  previousRows :: "string option"

definition headerStep ::
  "(real \<Rightarrow> string) \<Rightarrow> GridSettingsMap \<Rightarrow> HeaderState \<Rightarrow> Breakpoint \<Rightarrow> HeaderState" where
  "headerStep numToString currentSettings st bp =
     (let config = currentSettings bp;
          prefix = prefixMap bp;
          colsClass =
            (if \<not> isStandardTracks (colTracks config)
             then ''grid-cols-['' @ getTrackString numToString (colTracks config) @ '']''
             else ''grid-cols-'' @ showInt (cols config));
          st1 = (if previousCols st = None \<or> previousCols st \<noteq> Some colsClass
                 then st\<lparr>code := code st @ '' '' @ prefix @ colsClass,
                         previousCols := Some colsClass\<rparr>
                 else st);
          st2 = (if previousGap st1 = None \<or> previousGap st1 \<noteq> Some (gap config)
                 then st1\<lparr>code := code st1 @ '' '' @ prefix @ ''gap-'' @ showInt (gap config),
                          previousGap := Some (gap config)\<rparr>
                 else st1);
          rowsClass =
            (if \<not> isStandardTracks (rowTracks config)
             then ''grid-rows-['' @ getTrackString numToString (rowTracks config) @ '']''
             else ''grid-rows-'' @ showInt (rows config))
      in if previousRows st2 = None \<or> previousRows st2 \<noteq> Some rowsClass
         then st2\<lparr>code := code st2 @ '' '' @ prefix @ rowsClass, previousRows := Some rowsClass\<rparr>
         else st2)"

definition containerOpen ::
  "(real \<Rightarrow> string) \<Rightarrow> string \<Rightarrow> GridSettingsMap \<Rightarrow> string \<Rightarrow> bool \<Rightarrow> string" where
  \<open>containerOpen numToString classAttr currentSettings spaces isRoot =
     code (foldl (headerStep numToString currentSettings)
             \<lparr>code = (if isRoot then spaces @ ''<div '' @ classAttr @ ''="grid''
                      else newline @ spaces @ ''<div '' @ classAttr @ ''="grid w-full h-full''),
              previousCols = None, previousGap = None, previousRows = None\<rparr>
             BREAKPOINT_ORDER)
     @ ''">'' @ newline\<close>

definition itemClassNames :: "(real \<Rightarrow> string) \<Rightarrow> GridItem \<Rightarrow> string list" where
  "itemClassNames numToString item =
     concat (map (\<lambda>bp.
        let lay = layout item bp; prefix = prefixMap bp
        in (if \<not> isAuto (colStart lay) then [prefix @ ''col-start-'' @ colStart lay] else [])
         @ (if \<not> isAuto (colEnd lay) then [prefix @ ''col-end-'' @ colEnd lay] else [])
         @ (if \<not> isAuto (rowStart lay) then [prefix @ ''row-start-'' @ rowStart lay] else [])
         @ (if \<not> isAuto (rowEnd lay) then [prefix @ ''row-end-'' @ rowEnd lay] else [])
         @ (if isAuto (colStart lay) \<and> isAuto (colEnd lay) \<and> jgt (colSpan lay) (Fin 1)
            then [prefix @ ''col-span-'' @ js_toString numToString (colSpan lay)] else [])
         @ (if isAuto (rowStart lay) \<and> isAuto (rowEnd lay) \<and> jgt (rowSpan lay) (Fin 1)
            then [prefix @ ''row-span-'' @ js_toString numToString (rowSpan lay)] else [])
         @ (if \<not> isAuto (order lay) then [prefix @ ''order-'' @ order lay] else []))
       BREAKPOINT_ORDER)"

definition leafMarkup :: "string \<Rightarrow> string \<Rightarrow> string list \<Rightarrow> nat \<Rightarrow> string" where
  \<open>leafMarkup classAttr itemIndent classNames index =
     (if length classNames = 0 then
        itemIndent @ ''<div>'' @ newline @ itemIndent @ ''  <!-- Item '' @ showNat (index + 1)
        @ '' -->'' @ newline @ itemIndent @ ''</div>'' @ newline
      else
        itemIndent @ ''<div '' @ classAttr @ ''="'' @ trim (join '' '' classNames) @ ''">''
        @ newline @ itemIndent @ ''  <!-- Item '' @ showNat (index + 1) @ '' -->'' @ newline
        @ itemIndent @ ''</div>'' @ newline)\<close>

lemma enumerate_children_size_less:
  "(index, item) \<in> set (enumerate n list) \<Longrightarrow> children item = Some ch \<Longrightarrow>
     size_list size ch < size_list size list"
proof -
  assume mem: "(index, item) \<in> set (enumerate n list)" and ch: "children item = Some ch"
  from mem have "item \<in> set list"
    by (metis enumerate_eq_zip in_set_zipE)
  then show ?thesis
    using ch by (rule children_size_less)
qed

function generateGridContainer ::
  "(real \<Rightarrow> string) \<Rightarrow> string \<Rightarrow> GridItem list \<Rightarrow> GridSettingsMap \<Rightarrow> nat \<Rightarrow> bool \<Rightarrow> string" where
  \<open>generateGridContainer numToString classAttr currentItems currentSettings indent isRoot =
     (let spaces = replicate indent (CHR '' '')
      in containerOpen numToString classAttr currentSettings spaces isRoot
         @ concat (map (\<lambda>(index, item).
             let classNames = itemClassNames numToString item;
                 itemIndent = spaces @ ''  ''
             in case subGrid item of
                  None \<Rightarrow> leafMarkup classAttr itemIndent classNames index
                | Some sg \<Rightarrow>
                    (case children item of
                       None \<Rightarrow> leafMarkup classAttr itemIndent classNames index
                     | Some ch \<Rightarrow>
                         (let subGridCode =
                                generateGridContainer numToString classAttr ch sg (indent + 4) False
                          in itemIndent @ ''<div '' @ classAttr @ ''="''
                             @ trim (join '' '' classNames) @ ''">''
                             @ subGridCode @ itemIndent @ ''</div>'' @ newline)))
           (enumerate 0 currentItems))
         @ spaces @ ''</div>'')\<close>
  by pat_completeness auto
termination
  by (relation "measure (\<lambda>(numToString, classAttr, currentItems, currentSettings, indent, isRoot).
                  size_list size currentItems)")
     (auto intro: enumerate_children_size_less)

declare generateGridContainer.simps [simp del]

definition generateTailwindCode ::
  "(real \<Rightarrow> string) \<Rightarrow> GridItem list \<Rightarrow> GridSettingsMap \<Rightarrow> bool \<Rightarrow> string" where
  "generateTailwindCode numToString items' settings useClassName =
     (let classAttr = (if useClassName then ''className'' else ''class'')
      in generateGridContainer numToString classAttr items' settings 0 True)"

subsection \<open>The earlier, flat generator\<close>

text \<open>
  The repository also holds the version of the module from before sub-grids and tracks:
  its \<open>generateTailwindCode(items, settings)\<close> reads \<open>cols\<close>, \<open>gap\<close> and \<open>rows\<close>
  only and treats every item as a leaf.
\<close>

record FlatHeaderState =
  f_code :: string
  f_previousCols :: "int option"
  f_previousGap :: "int option"
  f_previousRows :: "int option"

definition flatHeaderStep :: "GridSettingsMap \<Rightarrow> FlatHeaderState \<Rightarrow> Breakpoint \<Rightarrow> FlatHeaderState" where
  "flatHeaderStep settings st bp =
     (let config = settings bp;
          prefix = prefixMap bp;
          st1 = (if f_previousCols st = None \<or> f_previousCols st \<noteq> Some (cols config)
                 then st\<lparr>f_code := f_code st @ '' '' @ prefix @ ''grid-cols-'' @ showInt (cols config),
                         f_previousCols := Some (cols config)\<rparr>
                 else st);
          st2 = (if f_previousGap st1 = None \<or> f_previousGap st1 \<noteq> Some (gap config)
                 then st1\<lparr>f_code := f_code st1 @ '' '' @ prefix @ ''gap-'' @ showInt (gap config),
                          f_previousGap := Some (gap config)\<rparr>
                 else st1)
      in if f_previousRows st2 = None \<or> f_previousRows st2 \<noteq> Some (rows config)
         then st2\<lparr>f_code := f_code st2 @ '' '' @ prefix @ ''grid-rows-'' @ showInt (rows config),
                  f_previousRows := Some (rows config)\<rparr>
         else st2)"

definition generateTailwindCode_flat ::
  "(real \<Rightarrow> string) \<Rightarrow> GridItem list \<Rightarrow> GridSettingsMap \<Rightarrow> string" where
  \<open>generateTailwindCode_flat numToString items' settings =
     (if length items' = 0 then ''<div class="grid"></div>''
      else
        f_code (foldl (flatHeaderStep settings)
                  \<lparr>f_code = ''<div class="grid'', f_previousCols = None, f_previousGap = None,
                   f_previousRows = None\<rparr>
                  BREAKPOINT_ORDER)
        @ ''">'' @ newline
        @ concat (map (\<lambda>(index, item).
                         leafMarkup ''class'' ''  '' (itemClassNames numToString item) index)
                      (enumerate 0 items'))
        @ ''</div>'')\<close>

section \<open>Geometry and pixels (src/components/PreviewCanvas.tsx)\<close>

text \<open>
  The rendered track sizes and the gap are finite numbers; grid lines and spans are
  integers. Every sum, product and quotient of pixel values is rounded to binary64. A
  read past the end of a size list gives \<open>undefined\<close>, which turns the sum it enters
  into \<open>NaN\<close>.
\<close>

fun jadd :: "jsnum \<Rightarrow> jsnum \<Rightarrow> jsnum" where
  "jadd NaN _ = NaN"
| "jadd _ NaN = NaN"
| "jadd (Fin a) (Fin b) = fl (a + b)"
| "jadd PosInf NegInf = NaN"
| "jadd NegInf PosInf = NaN"
| "jadd PosInf _ = PosInf"
| "jadd _ PosInf = PosInf"
| "jadd NegInf _ = NegInf"
| "jadd _ NegInf = NegInf"

record GridMetrics =
  colWidths :: "real list"
  rowHeights :: "real list"
  gapPx :: real

record DragIndicator =
  left :: jsnum
  top :: jsnum
  width :: jsnum
  height :: jsnum

text \<open>\<open>sizes[i]\<close> for an integer index.\<close>

definition sizeAt :: "real list \<Rightarrow> int \<Rightarrow> jsnum" where
  "sizeAt sizes i = (if 0 \<le> i \<and> i < int (length sizes) then Fin (sizes ! nat i) else NaN)"

function trackPositionLoop :: "int \<Rightarrow> real list \<Rightarrow> real \<Rightarrow> int \<Rightarrow> jsnum \<Rightarrow> jsnum" where
  "trackPositionLoop index sizes gap' i pos =
     (if i < index - 1
      then trackPositionLoop index sizes gap' (i + 1) (jadd pos (jadd (sizeAt sizes i) (Fin gap')))
      else pos)"
  by pat_completeness auto
termination
  by (relation "measure (\<lambda>(index, sizes, gap', i, pos). nat (index - 1 - i))") auto

declare trackPositionLoop.simps [simp del]

definition getTrackPosition :: "int \<Rightarrow> real list \<Rightarrow> real \<Rightarrow> jsnum" where
  "getTrackPosition index sizes gap' = trackPositionLoop index sizes gap' 0 (Fin 0)"

text \<open>
  The walk of \<open>positionFromCoords\<close> over one axis: the start line is 1 plus the number
  of tracks passed before the first one whose midpoint lies beyond the coordinate.
\<close>

fun startLineLoop :: "jsnum \<Rightarrow> real \<Rightarrow> real list \<Rightarrow> jsnum \<Rightarrow> int \<Rightarrow> int" where
  "startLineLoop x gap' [] current start = start"
| "startLineLoop x gap' (w # ws) current start =
     (if jlt x (jadd current (fl (w / 2))) then start
      else startLineLoop x gap' ws (jadd current (jadd (Fin w) (Fin gap'))) (start + 1))"

definition positionFromCoords ::
  "jsnum \<Rightarrow> jsnum \<Rightarrow> GridMetrics \<Rightarrow> int \<Rightarrow> int \<Rightarrow> int \<Rightarrow> int \<Rightarrow> int \<times> int" where
  "positionFromCoords x y metrics colSpan' rowSpan' totalCols totalRows =
     (let colStart' = startLineLoop x (gapPx metrics) (colWidths metrics) (Fin 0) 1;
          rowStart' = startLineLoop y (gapPx metrics) (rowHeights metrics) (Fin 0) 1;
          maxCol = max 1 (totalCols - colSpan' + 1);
          maxRow = max 1 (totalRows - rowSpan' + 1)
      in (clamp colStart' 1 maxCol, clamp rowStart' 1 maxRow))"

function spanSizeLoop :: "real list \<Rightarrow> int \<Rightarrow> int \<Rightarrow> jsnum \<Rightarrow> jsnum" where
  "spanSizeLoop sizes i stop acc =
     (if i < stop
      then spanSizeLoop sizes (i + 1) stop
             (if i < int (length sizes) then jadd acc (sizeAt sizes i) else acc)
      else acc)"
  by pat_completeness auto
termination
  by (relation "measure (\<lambda>(sizes, i, stop, acc). nat (stop - i))") auto

declare spanSizeLoop.simps [simp del]

definition indicatorFrom :: "int \<Rightarrow> int \<Rightarrow> int \<Rightarrow> int \<Rightarrow> GridMetrics \<Rightarrow> DragIndicator" where
  "indicatorFrom colStart' rowStart' colSpan' rowSpan' metrics =
     \<lparr>left = getTrackPosition colStart' (colWidths metrics) (gapPx metrics),
      top = getTrackPosition rowStart' (rowHeights metrics) (gapPx metrics),
      width = jadd (spanSizeLoop (colWidths metrics) (colStart' - 1) (colStart' - 1 + colSpan') (Fin 0))
                   (fl (gapPx metrics * real_of_int (max (colSpan' - 1) 0))),
      height = jadd (spanSizeLoop (rowHeights metrics) (rowStart' - 1) (rowStart' - 1 + rowSpan') (Fin 0))
                    (fl (gapPx metrics * real_of_int (max (rowSpan' - 1) 0)))\<rparr>"

section \<open>Export and import (src/App.tsx, hook \<open>useGridState\<close>)\<close>

text \<open>
  The exchanged configuration is a JSON document. It is modelled as the object that
  \<open>JSON.parse\<close> returns for the text that \<open>JSON.stringify\<close> writes, restricted to the
  top-level keys that export writes or import reads (\<open>items\<close>, \<open>settings\<close>,
  \<open>gridSettings\<close>), each present or absent, with the item properties that import reads
  present or absent.
\<close>

datatype DocItem =
  DocItem (d_id: "real option") (d_color: "string option")
          (d_layout: "(Breakpoint \<Rightarrow> PartialItemLayout option) option")
          (d_subGrid: "GridSettingsMap option") (d_children: "DocItem list option")

record Preset =
  p_items :: "DocItem list option"
  p_settings :: "GridSettingsMap option"
  p_gridSettings :: "GridSettingsMap option"

definition layoutToDoc :: "ItemLayout \<Rightarrow> PartialItemLayout" where
  "layoutToDoc l =
     \<lparr>p_colStart = Some (colStart l), p_colEnd = Some (colEnd l),
      p_rowStart = Some (rowStart l), p_rowEnd = Some (rowEnd l),
      p_colSpan = Some (colSpan l), p_rowSpan = Some (rowSpan l), p_order = Some (order l)\<rparr>"

fun itemToDoc :: "GridItem \<Rightarrow> DocItem" where
  "itemToDoc (GridItem i c l sg ch) =
     DocItem (Some i) (Some c) (Some (\<lambda>bp. Some (layoutToDoc (l bp)))) sg
             (map_option (map itemToDoc) ch)"

definition handleExport :: "GridState \<Rightarrow> Preset" where
  "handleExport st =
     \<lparr>p_items = Some (map itemToDoc (items st)),
      p_settings = Some (gridSettings st),
      p_gridSettings = None\<rparr>"

datatype ImportError = InvalidPreset

text \<open>
  \<open>importPreset\<close>: \<open>Inl\<close> when the body throws (the \<open>catch\<close> reports the error and the
  state stays as it was), \<open>Inr\<close> the state handed to the history otherwise.
\<close>

definition importPreset :: "Env \<Rightarrow> Breakpoint \<Rightarrow> Preset \<Rightarrow> ImportError + GridState" where
  "importPreset env currentBreakpoint preset =
     (case (p_items preset, p_gridSettings preset) of
        (Some docItems, Some docSettings) \<Rightarrow>
          (let importedItems =
                 map (\<lambda>(index, item).
                        GridItem (orElse (d_id item) (real (now env) + real index))
                                 (orElse (d_color item) (COLORS ! (index mod length COLORS)))
                                 (sanitizeLayoutMap (d_layout item)) None None)
                     (enumerate 0 docItems)
           in Inr \<lparr>items = reflowOrders importedItems currentBreakpoint,
                   gridSettings = cloneGridSettings docSettings\<rparr>)
      | _ \<Rightarrow> Inl InvalidPreset)"

section \<open>Vocabulary of the properties\<close>





text \<open>The ids of all items of a tree, at any depth.\<close>

function treeIds :: "GridItem list \<Rightarrow> real list" where
  "treeIds list =
     concat (map (\<lambda>item. item_id item # (case children item of Some ch \<Rightarrow> treeIds ch | None \<Rightarrow> []))
                 list)"
  by pat_completeness auto
termination
  by (relation "measure (\<lambda>list. size_list size list)") (auto intro: children_size_less)

declare treeIds.simps [simp del]

text \<open>
  The leaf/container dichotomy: in every item of the tree, at any depth, \<open>subGrid\<close> and
  \<open>children\<close> are both absent or both present.
\<close>

function dichotomy :: "GridItem list \<Rightarrow> bool" where
  "dichotomy list =
     list_all (\<lambda>item. (subGrid item = None \<longleftrightarrow> children item = None)
                      \<and> (case children item of Some ch \<Rightarrow> dichotomy ch | None \<Rightarrow> True))
              list"
  by pat_completeness auto
termination
  by (relation "measure (\<lambda>list. size_list size list)") (auto intro: children_size_less)

declare dichotomy.simps [simp del]

text \<open>The ids of the leaves of a tree: the items without \<open>children\<close>.\<close>

function leafIds :: "GridItem list \<Rightarrow> real list" where
  "leafIds list =
     concat (map (\<lambda>item. case children item of Some ch \<Rightarrow> leafIds ch | None \<Rightarrow> [item_id item])
                 list)"
  by pat_completeness auto
termination
  by (relation "measure (\<lambda>list. size_list size list)") (auto intro: children_size_less)

declare leafIds.simps [simp del]

text \<open>
  The class tokens of a container for its grid settings: what the walk over the
  breakpoints appends after \<open>grid\<close>.
\<close>

definition containerClasses :: "(real \<Rightarrow> string) \<Rightarrow> GridSettingsMap \<Rightarrow> string" where
  "containerClasses numToString settings =
     code (foldl (headerStep numToString settings)
             \<lparr>code = [], previousCols = None, previousGap = None, previousRows = None\<rparr>
             BREAKPOINT_ORDER)"

text \<open>
  Half of a track of size \<open>s\<close> counts at the pixel position \<open>p\<close>: the sum of \<open>p\<close> and
  \<open>s / 2\<close>, as the numbers compute it, is greater than \<open>p\<close>.
\<close>

definition halfCounts :: "jsnum \<Rightarrow> real \<Rightarrow> bool" where
  "halfCounts p s = jlt p (jadd p (fl (s / 2)))"










section \<open>Properties of binary64 rounding\<close>

lemma pow2_powr: "pow2 e = 2 powr (real_of_int e)"
proof (cases "0 \<le> e")
  case True
  then have "(2::real) powr (real_of_int e) = 2 powr (real (nat e))"
    by simp
  also have "\<dots> = 2 ^ nat e"
    by (rule powr_realpow) simp
  finally show ?thesis
    using True by (simp add: pow2_def)
next
  case False
  then have "(2::real) powr (real_of_int e) = 2 powr (- real (nat (- e)))"
    by simp
  also have "\<dots> = 1 / 2 powr (real (nat (- e)))"
    by (rule powr_minus_divide)
  also have "\<dots> = 1 / 2 ^ nat (- e)"
    by (simp add: powr_realpow)
  finally show ?thesis
    using False by (simp add: pow2_def)
qed

lemma pow2_pos: "0 < pow2 e"
  by (simp add: pow2_powr)

lemma pow2_add: "pow2 (a + b) = pow2 a * pow2 b"
  by (simp add: pow2_powr powr_add)

lemma pow2_mono: "a \<le> b \<Longrightarrow> pow2 a \<le> pow2 b"
  by (simp add: pow2_powr)

lemma pow2_le_iff: "pow2 a \<le> pow2 b \<longleftrightarrow> a \<le> b"
  by (simp add: pow2_powr)

lemma pow2_nat: "pow2 (int n) = 2 ^ n"
  by (simp add: pow2_def)

lemma pow2_neg_nat: "pow2 (- int n) = 1 / 2 ^ n"
proof -
  have "pow2 (- int n) * pow2 (int n) = 1"
    by (simp add: pow2_add [symmetric] pow2_def)
  then show ?thesis
    by (simp add: pow2_nat field_simps)
qed

lemma expoFrom_ge: "e \<le> expoFrom n e a"
proof (induction n arbitrary: e)
  case 0
  then show ?case by simp
next
  case (Suc n)
  have "e + 1 \<le> expoFrom n (e + 1) a"
    by (rule Suc.IH)
  then show ?case by simp
qed

lemma expoFrom_le: "e \<le> k \<Longrightarrow> a < pow2 (k + 53) \<Longrightarrow> expoFrom n e a \<le> k"
proof (induction n arbitrary: e)
  case 0
  then show ?case by simp
next
  case (Suc n)
  show ?case
  proof (cases "pow2 (e + 53) \<le> a")
    case True
    then have "e \<noteq> k" using Suc.prems(2) by auto
    then have "e + 1 \<le> k" using Suc.prems(1) by simp
    then show ?thesis using True Suc.IH Suc.prems(2) by simp
  next
    case False
    then show ?thesis using Suc.prems(1) by simp
  qed
qed

lemma expoFrom_upper: "expoFrom n e a \<le> e + int n"
proof (induction n arbitrary: e)
  case 0
  then show ?case by simp
next
  case (Suc n)
  have "expoFrom n (e + 1) a \<le> e + 1 + int n"
    by (rule Suc.IH)
  then show ?case by simp
qed

lemma expoFrom_low: "e < expoFrom n e a \<Longrightarrow> pow2 (expoFrom n e a + 52) \<le> a"
proof (induction n arbitrary: e)
  case 0
  then show ?case by simp
next
  case (Suc n)
  show ?case
  proof (cases "pow2 (e + 53) \<le> a")
    case True
    show ?thesis
    proof (cases "e + 1 < expoFrom n (e + 1) a")
      case True
      then have "pow2 (expoFrom n (e + 1) a + 52) \<le> a" by (rule Suc.IH)
      then show ?thesis using \<open>pow2 (e + 53) \<le> a\<close> by simp
    next
      case False
      then have "expoFrom n (e + 1) a = e + 1"
        using expoFrom_ge [of "e + 1" n a] by simp
      then show ?thesis using \<open>pow2 (e + 53) \<le> a\<close> by (simp add: add.commute)
    qed
  next
    case False
    then show ?thesis using Suc.prems by simp
  qed
qed

lemma expoFrom_high: "expoFrom n e a < e + int n \<Longrightarrow> a < pow2 (expoFrom n e a + 53)"
proof (induction n arbitrary: e)
  case 0
  then show ?case by simp
next
  case (Suc n)
  show ?case
  proof (cases "pow2 (e + 53) \<le> a")
    case True
    then have "expoFrom n (e + 1) a < e + 1 + int n"
      using Suc.prems by simp
    then have "a < pow2 (expoFrom n (e + 1) a + 53)" by (rule Suc.IH)
    then show ?thesis using True by simp
  next
    case False
    then show ?thesis by simp
  qed
qed

lemma expoFrom_mono: "a \<le> b \<Longrightarrow> expoFrom n e a \<le> expoFrom n e b"
proof (induction n arbitrary: e)
  case 0
  then show ?case by simp
next
  case (Suc n)
  show ?case
  proof (cases "pow2 (e + 53) \<le> a")
    case True
    then have "pow2 (e + 53) \<le> b" using Suc.prems by simp
    then show ?thesis using True Suc.IH [OF Suc.prems] by simp
  next
    case False
    then show ?thesis using expoFrom_ge [of "e + 1" n b] by simp
  qed
qed

lemma expo_lo: "- 1074 \<le> expo x"
  unfolding expo_def by (rule expoFrom_ge)

lemma expo_hi: "expo x \<le> 972"
  unfolding expo_def using expoFrom_upper [of 2046 "- 1074" "\<bar>x\<bar>"] by simp

lemma expo_low: "- 1074 < expo x \<Longrightarrow> pow2 (expo x + 52) \<le> \<bar>x\<bar>"
  unfolding expo_def by (rule expoFrom_low)

lemma expo_high: "expo x < 972 \<Longrightarrow> \<bar>x\<bar> < pow2 (expo x + 53)"
  unfolding expo_def by (rule expoFrom_high) simp

lemma expo_mono: "\<bar>x\<bar> \<le> \<bar>y\<bar> \<Longrightarrow> expo x \<le> expo y"
  unfolding expo_def by (rule expoFrom_mono)

lemma expo_eq:
  assumes "pow2 (e + 52) \<le> \<bar>x\<bar>" and "\<bar>x\<bar> < pow2 (e + 53)" and "- 1074 \<le> e" and "e \<le> 972"
  shows "expo x = e"
proof (rule antisym)
  show "expo x \<le> e"
  proof (rule ccontr)
    assume "\<not> expo x \<le> e"
    then have gt: "e < expo x" by simp
    then have "pow2 (expo x + 52) \<le> \<bar>x\<bar>"
      using assms(3) by (intro expo_low) simp
    then have "pow2 (expo x + 52) < pow2 (e + 53)"
      using assms(2) by simp
    then have "\<not> pow2 (e + 53) \<le> pow2 (expo x + 52)" by simp
    then show False using gt by (simp add: pow2_le_iff)
  qed
  show "e \<le> expo x"
  proof (rule ccontr)
    assume "\<not> e \<le> expo x"
    then have lt: "expo x < e" by simp
    then have "\<bar>x\<bar> < pow2 (expo x + 53)"
      using assms(4) by (intro expo_high) simp
    then have "pow2 (e + 52) < pow2 (expo x + 53)"
      using assms(1) by simp
    then have "\<not> pow2 (expo x + 53) \<le> pow2 (e + 52)" by simp
    then show False using lt by (simp add: pow2_le_iff)
  qed
qed

lemma roundHalfEven_of_int: "roundHalfEven (of_int z) = z"
  by (simp add: roundHalfEven_def)

lemma roundHalfEven_bounds: "\<lfloor>y\<rfloor> \<le> roundHalfEven y \<and> roundHalfEven y \<le> \<lfloor>y\<rfloor> + 1"
  by (simp add: roundHalfEven_def Let_def)

lemma roundHalfEven_mono: "y \<le> z \<Longrightarrow> roundHalfEven y \<le> roundHalfEven z"
proof (cases "\<lfloor>y\<rfloor> = \<lfloor>z\<rfloor>")
  case True
  assume "y \<le> z"
  then show ?thesis
    using True by (auto simp: roundHalfEven_def Let_def)
next
  case False
  assume "y \<le> z"
  then have "\<lfloor>y\<rfloor> \<le> \<lfloor>z\<rfloor>" by (rule floor_mono)
  then have "\<lfloor>y\<rfloor> + 1 \<le> \<lfloor>z\<rfloor>" using False by simp
  then show ?thesis
    using roundHalfEven_bounds [of y] roundHalfEven_bounds [of z] by linarith
qed

lemma roundHalfEven_ge: "of_int n \<le> y \<Longrightarrow> n \<le> roundHalfEven y"
  using roundHalfEven_mono [of "of_int n" y] by (simp add: roundHalfEven_of_int)

lemma roundHalfEven_le: "y \<le> of_int n \<Longrightarrow> roundHalfEven y \<le> n"
  using roundHalfEven_mono [of y "of_int n"] by (simp add: roundHalfEven_of_int)

lemma nearest_0: "nearest 0 = 0"
  by (simp add: nearest_def roundHalfEven_def)

lemma nearest_ge_pow2:
  assumes "0 \<le> y" and "- 1074 < expo y"
  shows "pow2 (expo y + 52) \<le> nearest y"
proof -
  have "pow2 (expo y + 52) \<le> y"
    using expo_low [OF assms(2)] assms(1) by simp
  then have "pow2 52 * pow2 (expo y) \<le> y"
    by (simp add: pow2_add mult.commute)
  then have "pow2 52 \<le> y / pow2 (expo y)"
    using pow2_pos [of "expo y"] by (simp add: pos_le_divide_eq)
  then have "of_int (2 ^ 52) \<le> y / pow2 (expo y)"
    using pow2_nat [of 52] by simp
  then have "2 ^ 52 \<le> roundHalfEven (y / pow2 (expo y))"
    by (rule roundHalfEven_ge)
  then have "real_of_int (2 ^ 52) \<le> real_of_int (roundHalfEven (y / pow2 (expo y)))"
    by (simp only: of_int_le_iff)
  then have "real_of_int (2 ^ 52) * pow2 (expo y) \<le> nearest y"
    unfolding nearest_def Let_def using pow2_pos [of "expo y"] by (intro mult_right_mono) simp_all
  moreover have "real_of_int (2 ^ 52) * pow2 (expo y) = pow2 (expo y + 52)"
    using pow2_nat [of 52] by (simp add: pow2_add mult.commute)
  ultimately show ?thesis by simp
qed

lemma nearest_le_pow2:
  assumes "0 \<le> x" and "expo x < 972"
  shows "nearest x \<le> pow2 (expo x + 53)"
proof -
  have "x < pow2 (expo x + 53)"
    using expo_high [OF assms(2)] assms(1) by simp
  then have "x \<le> pow2 53 * pow2 (expo x)"
    by (simp add: pow2_add mult.commute)
  then have "x / pow2 (expo x) \<le> pow2 53"
    using pow2_pos [of "expo x"] by (simp add: pos_divide_le_eq)
  then have "x / pow2 (expo x) \<le> of_int (2 ^ 53)"
    using pow2_nat [of 53] by simp
  then have "roundHalfEven (x / pow2 (expo x)) \<le> 2 ^ 53"
    by (rule roundHalfEven_le)
  then have "real_of_int (roundHalfEven (x / pow2 (expo x))) \<le> real_of_int (2 ^ 53)"
    by (simp only: of_int_le_iff)
  then have "nearest x \<le> real_of_int (2 ^ 53) * pow2 (expo x)"
    unfolding nearest_def Let_def using pow2_pos [of "expo x"] by (intro mult_right_mono) simp_all
  moreover have "real_of_int (2 ^ 53) * pow2 (expo x) = pow2 (expo x + 53)"
    using pow2_nat [of 53] by (simp add: pow2_add mult.commute)
  ultimately show ?thesis by simp
qed

lemma nearest_mono:
  assumes "0 \<le> x" and "x \<le> y"
  shows "nearest x \<le> nearest y"
proof -
  have y: "0 \<le> y" using assms by simp
  have le: "expo x \<le> expo y"
    using assms by (intro expo_mono) simp
  show ?thesis
  proof (cases "expo x = expo y")
    case True
    have "x / pow2 (expo y) \<le> y / pow2 (expo y)"
      using assms(2) pow2_pos [of "expo y"] by (simp add: divide_right_mono)
    then have "roundHalfEven (x / pow2 (expo y)) \<le> roundHalfEven (y / pow2 (expo y))"
      by (rule roundHalfEven_mono)
    then have "real_of_int (roundHalfEven (x / pow2 (expo y)))
                 \<le> real_of_int (roundHalfEven (y / pow2 (expo y)))"
      by (simp only: of_int_le_iff)
    then show ?thesis
      unfolding nearest_def Let_def True using pow2_pos [of "expo y"]
      by (intro mult_right_mono) simp_all
  next
    case False
    then have lt: "expo x < expo y" using le by simp
    have "expo x < 972" using lt expo_hi [of y] by simp
    then have "nearest x \<le> pow2 (expo x + 53)"
      using assms(1) by (intro nearest_le_pow2)
    also have "\<dots> \<le> pow2 (expo y + 52)"
      using lt by (intro pow2_mono) simp
    also have "\<dots> \<le> nearest y"
      using y lt expo_lo [of x] by (intro nearest_ge_pow2) simp_all
    finally show ?thesis .
  qed
qed

lemma nearest_nonneg: "0 \<le> x \<Longrightarrow> 0 \<le> nearest x"
  using nearest_mono [of 0 x] by (simp add: nearest_0)

lemma nearest_grid:
  assumes "e' \<le> e" and "expo (of_int m * pow2 e) = e'"
  shows "nearest (of_int m * pow2 e) = of_int m * pow2 e"
proof -
  define d where "d = nat (e - e')"
  have d: "e = int d + e'" using assms(1) by (simp add: d_def)
  have p: "pow2 e = 2 ^ d * pow2 e'"
    by (simp add: d pow2_add pow2_nat)
  have split: "real_of_int m * pow2 e = real_of_int (m * 2 ^ d) * pow2 e'"
    unfolding p by simp
  have "real_of_int m * pow2 e / pow2 e' = real_of_int (m * 2 ^ d)"
    unfolding split using pow2_pos [of e'] by simp
  then have "roundHalfEven (real_of_int m * pow2 e / pow2 e') = m * 2 ^ d"
    by (simp only: roundHalfEven_of_int)
  then show ?thesis
    unfolding nearest_def Let_def assms(2) using split by (simp only:)
qed

lemma nearest_idem:
  assumes "0 \<le> x" and "nearest x < pow2 1024"
  shows "nearest (nearest x) = nearest x"
proof -
  define e where "e = expo x"
  define m where "m = roundHalfEven (x / pow2 e)"
  have r: "nearest x = of_int m * pow2 e"
    by (simp add: nearest_def e_def m_def Let_def)
  have e971: "e < 972"
  proof (rule ccontr)
    assume "\<not> e < 972"
    then have "expo x = 972" using expo_hi [of x] by (simp add: e_def)
    then have "pow2 1024 \<le> nearest x"
      using nearest_ge_pow2 [of x] assms(1) by simp
    then show False using assms(2) by simp
  qed
  have up: "nearest x \<le> pow2 (e + 53)"
    unfolding e_def using assms(1) e971 by (intro nearest_le_pow2) (simp_all add: e_def)
  have nn: "0 \<le> nearest x"
    using assms(1) by (rule nearest_nonneg)
  define e' where "e' = expo (nearest x)"
  show ?thesis
  proof (cases "e' \<le> e")
    case True
    have "expo (of_int m * pow2 e) = e'"
      by (simp only: e'_def r)
    with True have "nearest (of_int m * pow2 e) = of_int m * pow2 e"
      by (rule nearest_grid)
    then show ?thesis
      by (simp only: r)
  next
    case False
    then have gt: "e < e'" by simp
    then have "- 1074 < expo (nearest x)"
      using expo_lo [of x] by (simp add: e_def e'_def)
    then have "pow2 (e' + 52) \<le> nearest x"
      using expo_low [of "nearest x"] nn by (simp add: e'_def)
    moreover have "pow2 (e + 53) \<le> pow2 (e' + 52)"
      using gt by (intro pow2_mono) simp
    ultimately have eq: "nearest x = pow2 (e + 53)" and "pow2 (e' + 52) \<le> pow2 (e + 53)"
      using up by simp_all
    then have "e' = e + 1"
      using gt by (simp add: pow2_le_iff)
    have p53: "pow2 (e + 53) = real_of_int (2 ^ 52) * pow2 (e + 1)"
      using pow2_add [of 52 "e + 1"] pow2_nat [of 52] by (simp add: add.commute)
    have "expo (real_of_int (2 ^ 52) * pow2 (e + 1)) = e + 1"
      by (simp only: p53 [symmetric] eq [symmetric] e'_def [symmetric] \<open>e' = e + 1\<close>)
    then have "nearest (real_of_int (2 ^ 52) * pow2 (e + 1)) = real_of_int (2 ^ 52) * pow2 (e + 1)"
      by (rule nearest_grid [OF order_refl])
    then show ?thesis
      by (simp only: eq p53)
  qed
qed

lemma fl_nonneg:
  "0 \<le> x \<Longrightarrow> fl x = (if pow2 1024 \<le> nearest x then PosInf else Fin (nearest x))"
  using nearest_nonneg [of x] pow2_pos [of 1024] by (simp add: fl_def Let_def)

lemma fl_not_NaN: "fl x \<noteq> NaN"
  by (simp add: fl_def Let_def)

lemma fl_nonneg_not_NegInf: "0 \<le> x \<Longrightarrow> fl x \<noteq> NegInf"
  by (simp add: fl_nonneg)

lemma fl_exact:
  assumes "\<bar>m\<bar> < 2 ^ 53" and "k \<le> 1074"
  shows "fl (real_of_int m / 2 ^ k) = Fin (real_of_int m / 2 ^ k)"
proof -
  define x where "x = real_of_int m * pow2 (- int k)"
  have absx: "\<bar>x\<bar> = real_of_int \<bar>m\<bar> * pow2 (- int k)"
    using pow2_pos [of "- int k"] by (simp add: x_def abs_mult)
  have "real_of_int \<bar>m\<bar> < 2 ^ 53"
    using assms(1) by (metis of_int_less_numeral_power_cancel_iff)
  then have "\<bar>x\<bar> < pow2 53 * pow2 (- int k)"
    unfolding absx using pow2_pos [of "- int k"] pow2_nat [of 53] by simp
  moreover have "pow2 53 * pow2 (- int k) = pow2 (- int k + 53)"
    using pow2_add [of "- int k" 53] by (simp add: mult.commute)
  ultimately have lt: "\<bar>x\<bar> < pow2 (- int k + 53)"
    by simp
  have hi: "expo x \<le> - int k"
    unfolding expo_def using assms(2) lt by (intro expoFrom_le) simp_all
  have n: "nearest x = x"
    unfolding x_def by (rule nearest_grid [OF hi [unfolded x_def] refl])
  have "pow2 (- int k + 53) \<le> pow2 1024"
    by (rule pow2_mono) simp
  then have "\<bar>x\<bar> < pow2 1024"
    using lt by simp
  then have "\<not> pow2 1024 \<le> x" "\<not> x \<le> - pow2 1024"
    by (simp_all add: abs_less_iff)
  then have "fl x = Fin x"
    by (simp add: fl_def Let_def n)
  then show ?thesis
    by (simp add: x_def pow2_neg_nat)
qed

text \<open>
  A value between two neighbours of a binade, less than half a step above the lower one,
  rounds down to it.
\<close>

lemma fl_absorb:
  assumes "2 ^ 52 \<le> n" and "n < 2 ^ 53" and "- 1074 \<le> e" and "e \<le> 971"
    and "0 \<le> t" and "t < 1 / 2"
  shows "fl ((real_of_int n + t) * pow2 e) = Fin (real_of_int n * pow2 e)"
proof -
  define x where "x = (real_of_int n + t) * pow2 e"
  have n52: "real_of_int (2 ^ 52) \<le> real_of_int n"
    using assms(1) by (simp only: of_int_le_iff)
  have "n + 1 \<le> 2 ^ 53"
    using assms(2) by simp
  then have "real_of_int (n + 1) \<le> real_of_int (2 ^ 53)"
    by (simp only: of_int_le_iff)
  then have n53: "real_of_int n + 1 \<le> real_of_int (2 ^ 53)"
    by simp
  have x0: "0 \<le> x"
    using n52 assms(5) pow2_pos [of e] by (simp add: x_def)
  have "real_of_int (2 ^ 52) * pow2 e \<le> x"
    unfolding x_def using n52 assms(5) pow2_pos [of e] by (intro mult_right_mono) simp_all
  then have lo: "pow2 (e + 52) \<le> \<bar>x\<bar>"
    using x0 pow2_nat [of 52] by (simp add: pow2_add mult.commute)
  have "x < (real_of_int n + 1) * pow2 e"
    unfolding x_def using assms(6) pow2_pos [of e] by (intro mult_strict_right_mono) simp_all
  also have "\<dots> \<le> real_of_int (2 ^ 53) * pow2 e"
    using n53 pow2_pos [of e] by (intro mult_right_mono) simp_all
  finally have hi: "\<bar>x\<bar> < pow2 (e + 53)"
    using x0 pow2_nat [of 53] by (simp add: pow2_add mult.commute)
  have ex: "expo x = e"
    using lo hi assms(3,4) by (intro expo_eq) simp_all
  have "\<lfloor>real_of_int n + t\<rfloor> = n"
    using assms(5,6) by (simp add: floor_eq_iff)
  then have "roundHalfEven (real_of_int n + t) = n"
    using assms(6) by (simp add: roundHalfEven_def Let_def)
  moreover have "x / pow2 e = real_of_int n + t"
    using pow2_pos [of e] by (simp add: x_def)
  ultimately have nx: "nearest x = real_of_int n * pow2 e"
    by (simp add: nearest_def Let_def ex)
  have "real_of_int n * pow2 e < real_of_int (2 ^ 53) * pow2 e"
    using n53 pow2_pos [of e] by (intro mult_strict_right_mono) simp_all
  also have "\<dots> = pow2 (e + 53)"
    using pow2_nat [of 53] by (simp add: pow2_add mult.commute)
  also have "\<dots> \<le> pow2 1024"
    using assms(4) by (intro pow2_mono) simp
  finally have "\<not> pow2 1024 \<le> nearest x"
    by (simp only: nx not_le)
  then have "fl x = Fin (real_of_int n * pow2 e)"
    using x0 by (simp add: fl_nonneg nx)
  then show ?thesis
    by (simp only: x_def)
qed

lemma fl_of_int: "\<bar>m\<bar> < 2 ^ 53 \<Longrightarrow> fl (real_of_int m) = Fin (real_of_int m)"
  using fl_exact [of m 0] by simp

lemma fl_numeral: "(numeral w :: int) < 2 ^ 53 \<Longrightarrow> fl (numeral w) = Fin (numeral w)"
  using fl_of_int [of "numeral w"] by simp

lemma fl_0: "fl 0 = Fin 0"
  using fl_of_int [of 0] by simp

lemma fl_1: "fl 1 = Fin 1"
  using fl_of_int [of 1] by simp















section \<open>Properties of the history engine\<close>

text \<open>
  C4. From present \<open>A\<close>, \<open>set(B)\<close> with \<open>B\<close> another object followed by \<open>undo()\<close>
  makes \<open>A\<close> present again with \<open>B\<close> at the front of the future, a further
  \<open>redo()\<close> makes \<open>B\<close> present; \<open>set\<close> of another object always leaves the future
  empty; \<open>set\<close> of the present object itself changes nothing.
\<close>

theorem history_laws:
  "(B \<noteq> present h \<longrightarrow>
      present (historyReducer (historyReducer h (SET B)) UNDO) = present h
    \<and> future (historyReducer (historyReducer h (SET B)) UNDO) = [B]
    \<and> hd (future (historyReducer (historyReducer h (SET B)) UNDO)) = B
    \<and> past (historyReducer (historyReducer h (SET B)) UNDO) = past h
    \<and> present (historyReducer (historyReducer (historyReducer h (SET B)) UNDO) REDO) = B
    \<and> future (historyReducer h (SET B)) = [])
   \<and> historyReducer h (SET (present h)) = h"
  by (simp add: Let_def)

theorem history_laws_witness:
  "(2::nat) \<noteq> present \<lparr>past = [0], present = 1, future = [7, 8]\<rparr>
   \<and> historyReducer (historyReducer \<lparr>past = [0], present = 1, future = [7, 8]\<rparr> (SET (2::nat))) UNDO
       = \<lparr>past = [0], present = 1, future = [2]\<rparr>
   \<and> historyReducer (historyReducer (historyReducer \<lparr>past = [0], present = 1, future = [7, 8]\<rparr> (SET (2::nat))) UNDO) REDO
       = \<lparr>past = [0, 1], present = 2, future = []\<rparr>
   \<and> historyReducer \<lparr>past = [0], present = (1::nat), future = [7, 8]\<rparr> (SET 1)
       = \<lparr>past = [0], present = 1, future = [7, 8]\<rparr>"
  using history_laws [where B = "2::nat" and h = "\<lparr>past = [0], present = 1, future = [7, 8]\<rparr>"]
  by (simp add: Let_def)

section \<open>Properties of the layout algebra\<close>

lemma createLayoutMap_apply: "createLayoutMap bp = createEmptyLayout"
  by (cases bp) (simp_all add: createLayoutMap_def BREAKPOINT_ORDER_def)

lemma cloneLayoutMap_apply: "cloneLayoutMap l bp = l bp"
  by (cases bp) (simp_all add: cloneLayoutMap_def BREAKPOINT_ORDER_def)

lemma cloneLayoutMap_ident: "cloneLayoutMap l = l"
  by (rule ext) (rule cloneLayoutMap_apply)

lemma sanitizeLayoutMap_Some_apply:
  "sanitizeLayoutMap (Some p) bp =
     (case p bp of None \<Rightarrow> createEmptyLayout | Some q \<Rightarrow> spreadLayout createEmptyLayout q)"
  by (cases bp)
     (simp_all add: sanitizeLayoutMap_def BREAKPOINT_ORDER_def createLayoutMap_apply
        split: option.split)




text \<open>
  C7. \<open>sanitizeLayoutMap(undefined)\<close> returns the default layout (positions and order
  \<open>"auto"\<close>, spans 1) at each of the six breakpoints; on a partial input each breakpoint
  that is absent gets the default layout, and each breakpoint that is present gets, field
  by field, the given value where the field is present and the default where it is not.
  The function has no failing branch.
\<close>

theorem sanitizeLayoutMap_defaults:
  "sanitizeLayoutMap None bp =
     \<lparr>colStart = ''auto'', colEnd = ''auto'', rowStart = ''auto'', rowEnd = ''auto'',
      colSpan = Fin 1, rowSpan = Fin 1, order = ''auto''\<rparr>
   \<and> sanitizeLayoutMap (Some p) bp =
     (case p bp of
        None \<Rightarrow>
          \<lparr>colStart = ''auto'', colEnd = ''auto'', rowStart = ''auto'', rowEnd = ''auto'',
           colSpan = Fin 1, rowSpan = Fin 1, order = ''auto''\<rparr>
      | Some q \<Rightarrow>
          \<lparr>colStart = orElse (p_colStart q) ''auto'', colEnd = orElse (p_colEnd q) ''auto'',
           rowStart = orElse (p_rowStart q) ''auto'', rowEnd = orElse (p_rowEnd q) ''auto'',
           colSpan = orElse (p_colSpan q) (Fin 1), rowSpan = orElse (p_rowSpan q) (Fin 1),
           order = orElse (p_order q) ''auto''\<rparr>)
   \<and> set BREAKPOINT_ORDER = UNIV \<and> length BREAKPOINT_ORDER = 6"
proof -
  have "sanitizeLayoutMap None bp = createEmptyLayout"
    by (simp add: sanitizeLayoutMap_def createLayoutMap_apply)
  moreover have "set BREAKPOINT_ORDER = UNIV"
  proof -
    have "b \<in> set BREAKPOINT_ORDER" for b
      by (cases b) (simp_all add: BREAKPOINT_ORDER_def)
    then show ?thesis by blast
  qed
  moreover have "length BREAKPOINT_ORDER = 6"
    by (simp add: BREAKPOINT_ORDER_def)
  ultimately show ?thesis
    by (simp add: sanitizeLayoutMap_Some_apply createEmptyLayout_def spreadLayout_def
          split: option.split)
qed

theorem sanitizeLayoutMap_defaults_witness:
  "sanitizeLayoutMap
     (Some ((\<lambda>bp. None)(Xs \<mapsto> \<lparr>p_colStart = None, p_colEnd = None, p_rowStart = None,
        p_rowEnd = None, p_colSpan = Some (Fin 3), p_rowSpan = None, p_order = None\<rparr>))) Xs
     = \<lparr>colStart = ''auto'', colEnd = ''auto'', rowStart = ''auto'', rowEnd = ''auto'',
        colSpan = Fin 3, rowSpan = Fin 1, order = ''auto''\<rparr>
   \<and> sanitizeLayoutMap
     (Some ((\<lambda>bp. None)(Xs \<mapsto> \<lparr>p_colStart = None, p_colEnd = None, p_rowStart = None,
        p_rowEnd = None, p_colSpan = Some (Fin 3), p_rowSpan = None, p_order = None\<rparr>))) Lg
     = \<lparr>colStart = ''auto'', colEnd = ''auto'', rowStart = ''auto'', rowEnd = ''auto'',
        colSpan = Fin 1, rowSpan = Fin 1, order = ''auto''\<rparr>"
  using
    sanitizeLayoutMap_defaults [where bp = Xs and
      p = "(\<lambda>bp. None)(Xs \<mapsto> \<lparr>p_colStart = None, p_colEnd = None, p_rowStart = None,
        p_rowEnd = None, p_colSpan = Some (Fin 3), p_rowSpan = None, p_order = None\<rparr>)"]
    sanitizeLayoutMap_defaults [where bp = Lg and
      p = "(\<lambda>bp. None)(Xs \<mapsto> \<lparr>p_colStart = None, p_colEnd = None, p_rowStart = None,
        p_rowEnd = None, p_colSpan = Some (Fin 3), p_rowSpan = None, p_order = None\<rparr>)"]
  by (simp add: orElse_def)

section \<open>Properties of the tree mutation engine\<close>

subsection \<open>Operations on an id that is not in the tree\<close>

lemma treeIds_child:
  "item \<in> set list \<Longrightarrow> children item = Some ch \<Longrightarrow> set (treeIds ch) \<subseteq> set (treeIds list)"
  by (subst (2) treeIds.simps) auto

lemma treeIds_top: "item \<in> set list \<Longrightarrow> item_id item \<in> set (treeIds list)"
  by (subst treeIds.simps) auto

lemma withChildren_same: "withChildren item (children item) = item"
  by (cases item) (simp add: withChildren_def)

lemma map_ident: "(\<And>x. x \<in> set xs \<Longrightarrow> f x = x) \<Longrightarrow> map f xs = xs"
  by (induction xs) auto

lemma removeRecursive_miss:
  "itemId \<notin> set (treeIds list) \<Longrightarrow> removeRecursive itemId list = list"
proof (induction itemId list rule: removeRecursive.induct)
  case (1 itemId list)
  have keep: "filter (\<lambda>item. item_id item \<noteq> itemId) list = list"
    using "1.prems" treeIds_top by (auto simp: filter_id_conv)
  have "withChildren item (case children item of Some ch \<Rightarrow> Some (removeRecursive itemId ch) | None \<Rightarrow> None) = item"
    if "item \<in> set list" for item
  proof (cases "children item")
    case None
    then show ?thesis using withChildren_same [of item] by simp
  next
    case (Some ch)
    have "itemId \<notin> set (treeIds ch)"
      using treeIds_child [OF that Some] "1.prems" by blast
    moreover have "item \<in> set (filter (\<lambda>item. item_id item \<noteq> itemId) list)"
      using that keep by simp
    ultimately have "removeRecursive itemId ch = ch"
      using "1.IH" Some by blast
    then show ?thesis using Some withChildren_same [of item] by simp
  qed
  then show ?case
    by (subst removeRecursive.simps) (simp add: keep map_ident)
qed

lemma updateAndReflow_miss:
  "itemId \<notin> set (treeIds list) \<Longrightarrow> updateAndReflow itemId bp cb list = list"
proof (induction itemId bp cb list rule: updateAndReflow.induct)
  case (1 itemId bp cb list)
  have none: "findIndex (\<lambda>i. item_id i = itemId) list = - 1"
    using "1.prems" treeIds_top by (auto simp: findIndex_none)
  have "(case children item of Some ch \<Rightarrow> withChildren item (Some (updateAndReflow itemId bp cb ch))
         | None \<Rightarrow> item) = item"
    if "item \<in> set list" for item
  proof (cases "children item")
    case None
    then show ?thesis by simp
  next
    case (Some ch)
    have "itemId \<notin> set (treeIds ch)"
      using treeIds_child [OF that Some] "1.prems" by blast
    then have "updateAndReflow itemId bp cb ch = ch"
      using "1.IH" none that Some by simp
    then show ?thesis using Some withChildren_same [of item] by simp
  qed
  then show ?case
    by (subst updateAndReflow.simps) (simp add: none map_ident)
qed

lemma duplicateRecursive_miss:
  "itemId \<notin> set (treeIds list) \<Longrightarrow> duplicateRecursive env bp itemId list = list"
proof (induction env bp itemId list rule: duplicateRecursive.induct)
  case (1 env bp itemId list)
  have none: "findIndex (\<lambda>i. item_id i = itemId) list = - 1"
    using "1.prems" treeIds_top by (auto simp: findIndex_none)
  have "(case children item of Some ch \<Rightarrow> withChildren item (Some (duplicateRecursive env bp itemId ch))
         | None \<Rightarrow> item) = item"
    if "item \<in> set list" for item
  proof (cases "children item")
    case None
    then show ?thesis by simp
  next
    case (Some ch)
    have "itemId \<notin> set (treeIds ch)"
      using treeIds_child [OF that Some] "1.prems" by blast
    then have "duplicateRecursive env bp itemId ch = ch"
      using "1.IH"(2) none that Some by simp
    then show ?thesis using Some withChildren_same [of item] by simp
  qed
  then show ?case
    by (subst duplicateRecursive.simps) (simp add: none map_ident)
qed

text \<open>
  C8. When the id occurs nowhere in the tree, removing the item, mutating or updating a
  layout field of the item, and duplicating the item each return the tree as it was:
  nothing is added, removed or altered. (The result is an equal tree, rebuilt; an absent
  \<open>children\<close> property and one set to \<open>undefined\<close> are the same value here.)
\<close>

theorem lookup_miss_noop:
  "itemId \<notin> set (treeIds tree) \<Longrightarrow>
     removeItem tree itemId = tree
     \<and> mutateLayout tree itemId bp cb = tree
     \<and> updateItemLayout tree bp itemId field v = tree
     \<and> duplicateItem env bp tree itemId = tree"
  by (simp add: removeItem_def mutateLayout_def updateItemLayout_def duplicateItem_def
        removeRecursive_miss updateAndReflow_miss duplicateRecursive_miss)

theorem lookup_miss_noop_witness:
  "99 \<notin> set (treeIds
       [GridItem 1 ''bg-red-500'' createLayoutMap None None,
        GridItem 2 ''bg-blue-500'' createLayoutMap (Some (DEFAULT_GRID_SETTINGS 0))
          (Some [GridItem 3 ''bg-pink-500'' createLayoutMap None None])])
   \<and> removeItem
       [GridItem 1 ''bg-red-500'' createLayoutMap None None,
        GridItem 2 ''bg-blue-500'' createLayoutMap (Some (DEFAULT_GRID_SETTINGS 0))
          (Some [GridItem 3 ''bg-pink-500'' createLayoutMap None None])] 99
     = [GridItem 1 ''bg-red-500'' createLayoutMap None None,
        GridItem 2 ''bg-blue-500'' createLayoutMap (Some (DEFAULT_GRID_SETTINGS 0))
          (Some [GridItem 3 ''bg-pink-500'' createLayoutMap None None])]
   \<and> updateItemLayout
       [GridItem 1 ''bg-red-500'' createLayoutMap None None,
        GridItem 2 ''bg-blue-500'' createLayoutMap (Some (DEFAULT_GRID_SETTINGS 0))
          (Some [GridItem 3 ''bg-pink-500'' createLayoutMap None None])] Xs 99 F_colSpan ''2''
     = [GridItem 1 ''bg-red-500'' createLayoutMap None None,
        GridItem 2 ''bg-blue-500'' createLayoutMap (Some (DEFAULT_GRID_SETTINGS 0))
          (Some [GridItem 3 ''bg-pink-500'' createLayoutMap None None])]
   \<and> duplicateItem \<lparr>now = 1000, random = 1 / 2, loadTime = 0\<rparr> Xs
       [GridItem 1 ''bg-red-500'' createLayoutMap None None,
        GridItem 2 ''bg-blue-500'' createLayoutMap (Some (DEFAULT_GRID_SETTINGS 0))
          (Some [GridItem 3 ''bg-pink-500'' createLayoutMap None None])] 99
     = [GridItem 1 ''bg-red-500'' createLayoutMap None None,
        GridItem 2 ''bg-blue-500'' createLayoutMap (Some (DEFAULT_GRID_SETTINGS 0))
          (Some [GridItem 3 ''bg-pink-500'' createLayoutMap None None])]"
  using lookup_miss_noop [where itemId = 99 and bp = Xs and field = F_colSpan and v = "''2''"
      and env = "\<lparr>now = 1000, random = 1 / 2, loadTime = 0\<rparr>"
      and tree = "[GridItem 1 ''bg-red-500'' createLayoutMap None None,
        GridItem 2 ''bg-blue-500'' createLayoutMap (Some (DEFAULT_GRID_SETTINGS 0))
          (Some [GridItem 3 ''bg-pink-500'' createLayoutMap None None])]"]
  by (simp add: treeIds.simps)

subsection \<open>The leaf/container dichotomy\<close>

lemma dichotomy_Nil: "dichotomy []"
  by (subst dichotomy.simps) simp

lemma dichotomy_Cons:
  "dichotomy (item # list) \<longleftrightarrow>
     (subGrid item = None \<longleftrightarrow> children item = None)
     \<and> (case children item of Some ch \<Rightarrow> dichotomy ch | None \<Rightarrow> True)
     \<and> dichotomy list"
  by (simp add: dichotomy.simps [of "item # list"] dichotomy.simps [of list])

lemma dichotomy_append: "dichotomy (xs @ ys) \<longleftrightarrow> dichotomy xs \<and> dichotomy ys"
  by (induction xs) (auto simp: dichotomy_Nil dichotomy_Cons)

lemma dichotomy_all: "dichotomy list \<longleftrightarrow> (\<forall>item \<in> set list. dichotomy [item])"
  by (induction list) (auto simp: dichotomy_Nil dichotomy_Cons)

lemma dichotomy_memD: "dichotomy list \<Longrightarrow> item \<in> set list \<Longrightarrow> dichotomy [item]"
  using dichotomy_all by blast

lemma dichotomy_mapI:
  "(\<And>item. item \<in> set list \<Longrightarrow> dichotomy [f item]) \<Longrightarrow> dichotomy (map f list)"
  by (subst dichotomy_all) auto

lemma dichotomy_map_same:
  assumes "\<And>item. subGrid (g item) = subGrid item \<and> children (g item) = children item"
  shows "dichotomy (map g list) = dichotomy list"
  by (induction list) (simp_all add: dichotomy_Nil dichotomy_Cons assms)

lemma reflowOrders_dichotomy: "dichotomy (reflowOrders list bp) = dichotomy list"
  unfolding reflowOrders_def Let_def
  by (rule dichotomy_map_same) (simp add: withLayout_def)

lemma leafIds_child:
  "item \<in> set list \<Longrightarrow> children item = Some ch \<Longrightarrow> set (leafIds ch) \<subseteq> set (leafIds list)"
  by (subst (2) leafIds.simps) force

lemma leafIds_top:
  "item \<in> set list \<Longrightarrow> children item = None \<Longrightarrow> item_id item \<in> set (leafIds list)"
  by (subst leafIds.simps) force

lemma updateItemRecursive_dichotomy:
  "dichotomy list \<Longrightarrow>
   (\<And>item. item_id item = itemId \<Longrightarrow> dichotomy [item] \<Longrightarrow>
           (strict \<longrightarrow> children item \<noteq> None) \<Longrightarrow> dichotomy [cb item]) \<Longrightarrow>
   (strict \<longrightarrow> itemId \<notin> set (leafIds list)) \<Longrightarrow>
   dichotomy (updateItemRecursive list itemId cb)"
proof (induction list itemId cb rule: updateItemRecursive.induct)
  case (1 list itemId cb)
  note cb_ok = "1.prems"(2)
  have step: "dichotomy [if item_id item = itemId then cb item
               else (case children item of
                       Some ch \<Rightarrow> withChildren item (Some (updateItemRecursive ch itemId cb))
                     | None \<Rightarrow> item)]"
    if mem: "item \<in> set list" for item
  proof -
    have wf: "dichotomy [item]"
      using "1.prems"(1) mem by (rule dichotomy_memD)
    show ?thesis
    proof (cases "item_id item = itemId")
      case True
      have "strict \<longrightarrow> children item \<noteq> None"
        using "1.prems"(3) leafIds_top [OF mem] True by auto
      then have "dichotomy [cb item]"
        by (rule cb_ok [OF True wf])
      then show ?thesis
        using True by simp
    next
      case False
      show ?thesis
      proof (cases "children item")
        case None
        then show ?thesis using False wf by simp
      next
        case (Some ch)
        have "dichotomy ch"
          using wf Some by (simp add: dichotomy_Cons)
        moreover have "strict \<longrightarrow> itemId \<notin> set (leafIds ch)"
          using "1.prems"(3) leafIds_child [OF mem Some] by blast
        ultimately have "dichotomy (updateItemRecursive ch itemId cb)"
          using "1.IH" [OF mem False Some] cb_ok by blast
        then show ?thesis
          using False Some wf
          by (simp add: dichotomy_Cons dichotomy_Nil withChildren_def)
      qed
    qed
  qed
  show ?case
    by (subst updateItemRecursive.simps) (rule dichotomy_mapI, rule step)
qed

lemma removeRecursive_dichotomy:
  "dichotomy list \<Longrightarrow> dichotomy (removeRecursive itemId list)"
proof (induction itemId list rule: removeRecursive.induct)
  case (1 itemId list)
  have step: "dichotomy [withChildren item
                 (case children item of Some ch \<Rightarrow> Some (removeRecursive itemId ch) | None \<Rightarrow> None)]"
    if mem: "item \<in> set (filter (\<lambda>item. item_id item \<noteq> itemId) list)" for item
  proof -
    have "item \<in> set list"
      using mem by simp
    then have wf: "dichotomy [item]"
      using "1.prems" by (rule dichotomy_memD [rotated])
    show ?thesis
    proof (cases "children item")
      case None
      then show ?thesis using wf
        by (simp add: dichotomy_Cons dichotomy_Nil withChildren_def)
    next
      case (Some ch)
      have "dichotomy ch"
        using wf Some by (simp add: dichotomy_Cons)
      then have "dichotomy (removeRecursive itemId ch)"
        using "1.IH" [OF mem Some] by simp
      then show ?thesis using Some wf
        by (simp add: dichotomy_Cons dichotomy_Nil withChildren_def)
    qed
  qed
  show ?case
    by (subst removeRecursive.simps) (rule dichotomy_mapI, rule step)
qed

lemma updateAndReflow_dichotomy:
  "dichotomy list \<Longrightarrow> dichotomy (updateAndReflow itemId bp cb list)"
proof (induction itemId bp cb list rule: updateAndReflow.induct)
  case (1 itemId bp cb list)
  show ?case
  proof (cases "findIndex (\<lambda>i. item_id i = itemId) list \<noteq> - 1")
    case True
    have "dichotomy (map (\<lambda>item. if item_id item \<noteq> itemId then item
             else (let layouts = layout item
                   in withLayout item (layouts(bp := cb (layouts bp))))) list) = dichotomy list"
      by (rule dichotomy_map_same) (simp add: withLayout_def Let_def)
    then show ?thesis
      using True "1.prems"
      by (subst updateAndReflow.simps) (simp add: Let_def reflowOrders_dichotomy)
  next
    case False
    have step: "dichotomy [case children item of
                   Some ch \<Rightarrow> withChildren item (Some (updateAndReflow itemId bp cb ch))
                 | None \<Rightarrow> item]"
      if mem: "item \<in> set list" for item
    proof -
      have wf: "dichotomy [item]"
        using "1.prems" mem by (rule dichotomy_memD)
      show ?thesis
      proof (cases "children item")
        case None
        then show ?thesis using wf by simp
      next
        case (Some ch)
        have "dichotomy ch"
          using wf Some by (simp add: dichotomy_Cons)
        then have "dichotomy (updateAndReflow itemId bp cb ch)"
          using "1.IH" False mem Some by simp
        then show ?thesis using Some wf
          by (simp add: dichotomy_Cons dichotomy_Nil withChildren_def)
      qed
    qed
    have "dichotomy (map (\<lambda>item. case children item of
                   Some ch \<Rightarrow> withChildren item (Some (updateAndReflow itemId bp cb ch))
                 | None \<Rightarrow> item) list)"
      by (rule dichotomy_mapI, rule step)
    then show ?thesis
      using False
      by (subst updateAndReflow.simps) simp
  qed
qed

lemma duplicateRecursive_dichotomy:
  "dichotomy list \<Longrightarrow> dichotomy (duplicateRecursive env bp itemId list)"
proof (induction env bp itemId list rule: duplicateRecursive.induct)
  case (1 env bp itemId list)
  show ?case
  proof (cases "findIndex (\<lambda>i. item_id i = itemId) list \<noteq> - 1")
    case True
    define item where "item = list ! nat (findIndex (\<lambda>i. item_id i = itemId) list)"
    have mem: "item \<in> set list"
      using findIndex_found [OF True] by (simp add: item_def)
    have wf: "dichotomy [item]"
      using "1.prems" mem by (rule dichotomy_memD)
    have "dichotomy [GridItem (real (now env) + random env) (color item)
             (cloneLayoutMap (layout item)) (subGrid item)
             (case children item of
                Some ch \<Rightarrow> Some (duplicateRecursive env bp itemId ch)
              | None \<Rightarrow> None)]"
    proof (cases "children item")
      case None
      then show ?thesis using wf by (simp add: dichotomy_Cons dichotomy_Nil)
    next
      case (Some ch)
      have "dichotomy ch"
        using wf Some by (simp add: dichotomy_Cons)
      then have "dichotomy (duplicateRecursive env bp itemId ch)"
        using "1.IH"(1) [OF refl True item_def Some] by simp
      then show ?thesis using Some wf by (simp add: dichotomy_Cons dichotomy_Nil)
    qed
    then show ?thesis
      using True "1.prems"
      by (subst duplicateRecursive.simps)
         (simp add: Let_def reflowOrders_dichotomy dichotomy_append item_def)
  next
    case False
    have step: "dichotomy [case children item of
                   Some ch \<Rightarrow> withChildren item (Some (duplicateRecursive env bp itemId ch))
                 | None \<Rightarrow> item]"
      if mem: "item \<in> set list" for item
    proof -
      have wf: "dichotomy [item]"
        using "1.prems" mem by (rule dichotomy_memD)
      show ?thesis
      proof (cases "children item")
        case None
        then show ?thesis using wf by simp
      next
        case (Some ch)
        have "dichotomy ch"
          using wf Some by (simp add: dichotomy_Cons)
        then have "dichotomy (duplicateRecursive env bp itemId ch)"
          using "1.IH"(2) False mem Some by simp
        then show ?thesis using Some wf
          by (simp add: dichotomy_Cons dichotomy_Nil withChildren_def)
      qed
    qed
    have "dichotomy (map (\<lambda>item. case children item of
                   Some ch \<Rightarrow> withChildren item (Some (duplicateRecursive env bp itemId ch))
                 | None \<Rightarrow> item) list)"
      by (rule dichotomy_mapI, rule step)
    then show ?thesis
      using False
      by (subst duplicateRecursive.simps) simp
  qed
qed

lemma newItem_dichotomy: "dichotomy [GridItem i c l None None]"
  by (simp add: dichotomy_Cons dichotomy_Nil)

text \<open>
  C9 (as amended). On a tree in which every item has \<open>subGrid\<close> and \<open>children\<close> both
  absent or both present, the same holds after adding an item at the root, adding an item
  under a parent id that is not the id of a leaf of the tree, removing, duplicating,
  converting to a grid, and mutating or updating a layout field, for any other arguments.
\<close>

theorem mutations_keep_dichotomy:
  assumes "dichotomy tree"
  shows "(falsyId parentId \<longrightarrow> dichotomy (addItem env bp tree parentId))
    \<and> (parentId = Some pid \<and> pid \<notin> set (leafIds tree) \<longrightarrow> dichotomy (addItem env bp tree parentId))
    \<and> dichotomy (removeItem tree itemId)
    \<and> dichotomy (duplicateItem env bp tree itemId)
    \<and> dichotomy (convertItemToGrid env tree itemId)
    \<and> dichotomy (mutateLayout tree itemId bp cb)
    \<and> dichotomy (updateItemLayout tree bp itemId field v)"
proof -
  have add_root: "dichotomy (addItem env bp tree parentId)" if "falsyId parentId"
    using that assms
    by (simp add: addItem_def Let_def reflowOrders_dichotomy dichotomy_append newItem_dichotomy)
  have add_child: "dichotomy (addItem env bp tree parentId)"
    if "parentId = Some pid" "pid \<notin> set (leafIds tree)"
  proof (cases "falsyId parentId")
    case True
    then show ?thesis by (rule add_root)
  next
    case False
    have "dichotomy (updateItemRecursive tree pid (\<lambda>parent.
            withChildren parent (Some (reflowOrders (orElse (children parent) [] @
              [GridItem (real (now env)) (COLORS ! nat \<lfloor>random env * real (length COLORS)\<rfloor>)
                 createLayoutMap None None]) bp))))"
    proof (rule updateItemRecursive_dichotomy [where strict = True, OF assms])
      fix item :: GridItem
      assume "dichotomy [item]" "True \<longrightarrow> children item \<noteq> None"
      then show "dichotomy [withChildren item (Some (reflowOrders (orElse (children item) [] @
              [GridItem (real (now env)) (COLORS ! nat \<lfloor>random env * real (length COLORS)\<rfloor>)
                 createLayoutMap None None]) bp))]"
        by (cases "children item")
           (auto simp: dichotomy_Cons dichotomy_Nil withChildren_def reflowOrders_dichotomy
              dichotomy_append orElse_def)
    next
      show "True \<longrightarrow> pid \<notin> set (leafIds tree)" using that by simp
    qed
    then show ?thesis
      using False that by (simp add: addItem_def Let_def)
  qed
  have conv: "dichotomy (convertItemToGrid env tree itemId)"
    unfolding convertItemToGrid_def
    by (rule updateItemRecursive_dichotomy [where strict = False, OF assms])
       (simp_all add: dichotomy_Cons dichotomy_Nil)
  show ?thesis
    using assms add_root add_child conv
    by (simp add: removeItem_def duplicateItem_def mutateLayout_def updateItemLayout_def
          removeRecursive_dichotomy duplicateRecursive_dichotomy updateAndReflow_dichotomy)
qed

theorem mutations_keep_dichotomy_witness:
  "dichotomy
     [GridItem 1 ''bg-red-500'' createLayoutMap None None,
      GridItem 2 ''bg-blue-500'' createLayoutMap (Some (DEFAULT_GRID_SETTINGS 0))
        (Some [GridItem 3 ''bg-pink-500'' createLayoutMap None None])]
   \<and> 2 \<notin> set (leafIds
     [GridItem 1 ''bg-red-500'' createLayoutMap None None,
      GridItem 2 ''bg-blue-500'' createLayoutMap (Some (DEFAULT_GRID_SETTINGS 0))
        (Some [GridItem 3 ''bg-pink-500'' createLayoutMap None None])])
   \<and> dichotomy (addItem \<lparr>now = 1000, random = 1 / 2, loadTime = 0\<rparr> Xs
     [GridItem 1 ''bg-red-500'' createLayoutMap None None,
      GridItem 2 ''bg-blue-500'' createLayoutMap (Some (DEFAULT_GRID_SETTINGS 0))
        (Some [GridItem 3 ''bg-pink-500'' createLayoutMap None None])] (Some 2))
   \<and> dichotomy (addItem \<lparr>now = 1000, random = 1 / 2, loadTime = 0\<rparr> Xs
     [GridItem 1 ''bg-red-500'' createLayoutMap None None,
      GridItem 2 ''bg-blue-500'' createLayoutMap (Some (DEFAULT_GRID_SETTINGS 0))
        (Some [GridItem 3 ''bg-pink-500'' createLayoutMap None None])] None)
   \<and> dichotomy (convertItemToGrid \<lparr>now = 1000, random = 1 / 2, loadTime = 0\<rparr>
     [GridItem 1 ''bg-red-500'' createLayoutMap None None,
      GridItem 2 ''bg-blue-500'' createLayoutMap (Some (DEFAULT_GRID_SETTINGS 0))
        (Some [GridItem 3 ''bg-pink-500'' createLayoutMap None None])] 3)
   \<and> dichotomy (duplicateItem \<lparr>now = 1000, random = 1 / 2, loadTime = 0\<rparr> Xs
     [GridItem 1 ''bg-red-500'' createLayoutMap None None,
      GridItem 2 ''bg-blue-500'' createLayoutMap (Some (DEFAULT_GRID_SETTINGS 0))
        (Some [GridItem 3 ''bg-pink-500'' createLayoutMap None None])] 3)
   \<and> dichotomy (removeItem
     [GridItem 1 ''bg-red-500'' createLayoutMap None None,
      GridItem 2 ''bg-blue-500'' createLayoutMap (Some (DEFAULT_GRID_SETTINGS 0))
        (Some [GridItem 3 ''bg-pink-500'' createLayoutMap None None])] 3)"
  using mutations_keep_dichotomy [where parentId = "Some 2" and pid = 2 and itemId = 3
      and bp = Xs and env = "\<lparr>now = 1000, random = 1 / 2, loadTime = 0\<rparr>"
      and tree = "[GridItem 1 ''bg-red-500'' createLayoutMap None None,
      GridItem 2 ''bg-blue-500'' createLayoutMap (Some (DEFAULT_GRID_SETTINGS 0))
        (Some [GridItem 3 ''bg-pink-500'' createLayoutMap None None])]"]
    mutations_keep_dichotomy [where parentId = None and pid = 2 and itemId = 3
      and bp = Xs and env = "\<lparr>now = 1000, random = 1 / 2, loadTime = 0\<rparr>"
      and tree = "[GridItem 1 ''bg-red-500'' createLayoutMap None None,
      GridItem 2 ''bg-blue-500'' createLayoutMap (Some (DEFAULT_GRID_SETTINGS 0))
        (Some [GridItem 3 ''bg-pink-500'' createLayoutMap None None])]"]
  by (simp add: dichotomy.simps leafIds.simps falsyId_def)

text \<open>
  Adding an item under the id of a leaf gives the leaf a \<open>children\<close> list and no
  \<open>subGrid\<close>: the claim as first stated, for every argument of add-with-parent, fails.
\<close>

theorem addItem_leaf_parent_counterexample:
  "dichotomy [GridItem 1 ''bg-red-500'' createLayoutMap None None]
   \<and> \<not> dichotomy (addItem \<lparr>now = 1000, random = 1 / 2, loadTime = 0\<rparr> Xs
           [GridItem 1 ''bg-red-500'' createLayoutMap None None] (Some 1))
   \<and> subGrid (hd (addItem \<lparr>now = 1000, random = 1 / 2, loadTime = 0\<rparr> Xs
           [GridItem 1 ''bg-red-500'' createLayoutMap None None] (Some 1))) = None
   \<and> children (hd (addItem \<lparr>now = 1000, random = 1 / 2, loadTime = 0\<rparr> Xs
           [GridItem 1 ''bg-red-500'' createLayoutMap None None] (Some 1))) \<noteq> None"
  by (simp add: dichotomy.simps addItem_def falsyId_def updateItemRecursive.simps
        withChildren_def Let_def)

section \<open>Properties of the settings update\<close>

text \<open>
  C5. On a setting whose \<open>colTracks\<close> has length 4, the update \<open>cols = 6\<close> gives six
  column tracks: the four original ones, unchanged, then two tracks of value 1 and unit
  \<open>fr\<close>; the update \<open>cols = 2\<close> gives the first two original tracks; in both, and
  for any count that is not negative, \<open>cols\<close> is the length of \<open>colTracks\<close>
  afterwards. Setting \<open>colTracks\<close> sets \<open>cols\<close> to the number of tracks given. The
  same holds for \<open>rows\<close> and \<open>rowTracks\<close>.
\<close>

theorem track_count_sync:
  "(let s = gridSettings st bp;
        s6 = gridSettings (updateGridSetting freshId bp st (U_cols 6) None) bp;
        s2 = gridSettings (updateGridSetting freshId bp st (U_cols 2) None) bp;
        sn = gridSettings (updateGridSetting freshId bp st (U_cols n) None) bp;
        st' = gridSettings (updateGridSetting freshId bp st (U_colTracks ts) None) bp
    in (length (colTracks s) = 4 \<longrightarrow>
            length (colTracks s6) = 6 \<and> take 4 (colTracks s6) = colTracks s
            \<and> map tvalue (drop 4 (colTracks s6)) = [1, 1]
            \<and> map tunit (drop 4 (colTracks s6)) = [Fr, Fr]
            \<and> map tid (drop 4 (colTracks s6)) = [freshId 0, freshId 1]
            \<and> cols s6 = 6
            \<and> colTracks s2 = take 2 (colTracks s) \<and> length (colTracks s2) = 2 \<and> cols s2 = 2)
       \<and> (0 \<le> n \<longrightarrow> cols sn = n \<and> int (length (colTracks sn)) = cols sn)
       \<and> colTracks st' = ts \<and> cols st' = int (length (colTracks st')))
   \<and> (let s = gridSettings st bp;
        r6 = gridSettings (updateGridSetting freshId bp st (U_rows 6) None) bp;
        r2 = gridSettings (updateGridSetting freshId bp st (U_rows 2) None) bp;
        rn = gridSettings (updateGridSetting freshId bp st (U_rows n) None) bp;
        rt' = gridSettings (updateGridSetting freshId bp st (U_rowTracks ts) None) bp
    in (length (rowTracks s) = 4 \<longrightarrow>
            length (rowTracks r6) = 6 \<and> take 4 (rowTracks r6) = rowTracks s
            \<and> map tvalue (drop 4 (rowTracks r6)) = [1, 1]
            \<and> map tunit (drop 4 (rowTracks r6)) = [Fr, Fr]
            \<and> map tid (drop 4 (rowTracks r6)) = [freshId 0, freshId 1]
            \<and> rows r6 = 6
            \<and> rowTracks r2 = take 2 (rowTracks s) \<and> length (rowTracks r2) = 2 \<and> rows r2 = 2)
       \<and> (0 \<le> n \<longrightarrow> rows rn = n \<and> int (length (rowTracks rn)) = rows rn)
       \<and> rowTracks rt' = ts \<and> rows rt' = int (length (rowTracks rt')))"
proof -
  have two: "[0..<2] = [0, Suc 0]"
    by (simp add: numeral_2_eq_2)
  note defs = updateGridSetting_def updateSettings_def falsyId_def Let_def addedTracks_def
    sliceTo_def
  have c4: "length (colTracks (gridSettings st bp)) = 4 \<longrightarrow>
      length (colTracks (gridSettings (updateGridSetting freshId bp st (U_cols 6) None) bp)) = 6
      \<and> take 4 (colTracks (gridSettings (updateGridSetting freshId bp st (U_cols 6) None) bp))
          = colTracks (gridSettings st bp)
      \<and> map tvalue (drop 4 (colTracks (gridSettings (updateGridSetting freshId bp st (U_cols 6) None) bp)))
          = [1, 1]
      \<and> map tunit (drop 4 (colTracks (gridSettings (updateGridSetting freshId bp st (U_cols 6) None) bp)))
          = [Fr, Fr]
      \<and> map tid (drop 4 (colTracks (gridSettings (updateGridSetting freshId bp st (U_cols 6) None) bp)))
          = [freshId 0, freshId 1]
      \<and> cols (gridSettings (updateGridSetting freshId bp st (U_cols 6) None) bp) = 6
      \<and> colTracks (gridSettings (updateGridSetting freshId bp st (U_cols 2) None) bp)
          = take 2 (colTracks (gridSettings st bp))
      \<and> length (colTracks (gridSettings (updateGridSetting freshId bp st (U_cols 2) None) bp)) = 2
      \<and> cols (gridSettings (updateGridSetting freshId bp st (U_cols 2) None) bp) = 2"
    by (simp add: defs two)
  have r4: "length (rowTracks (gridSettings st bp)) = 4 \<longrightarrow>
      length (rowTracks (gridSettings (updateGridSetting freshId bp st (U_rows 6) None) bp)) = 6
      \<and> take 4 (rowTracks (gridSettings (updateGridSetting freshId bp st (U_rows 6) None) bp))
          = rowTracks (gridSettings st bp)
      \<and> map tvalue (drop 4 (rowTracks (gridSettings (updateGridSetting freshId bp st (U_rows 6) None) bp)))
          = [1, 1]
      \<and> map tunit (drop 4 (rowTracks (gridSettings (updateGridSetting freshId bp st (U_rows 6) None) bp)))
          = [Fr, Fr]
      \<and> map tid (drop 4 (rowTracks (gridSettings (updateGridSetting freshId bp st (U_rows 6) None) bp)))
          = [freshId 0, freshId 1]
      \<and> rows (gridSettings (updateGridSetting freshId bp st (U_rows 6) None) bp) = 6
      \<and> rowTracks (gridSettings (updateGridSetting freshId bp st (U_rows 2) None) bp)
          = take 2 (rowTracks (gridSettings st bp))
      \<and> length (rowTracks (gridSettings (updateGridSetting freshId bp st (U_rows 2) None) bp)) = 2
      \<and> rows (gridSettings (updateGridSetting freshId bp st (U_rows 2) None) bp) = 2"
    by (simp add: defs two)
  have cn: "0 \<le> n \<longrightarrow>
      cols (gridSettings (updateGridSetting freshId bp st (U_cols n) None) bp) = n
      \<and> int (length (colTracks (gridSettings (updateGridSetting freshId bp st (U_cols n) None) bp)))
          = cols (gridSettings (updateGridSetting freshId bp st (U_cols n) None) bp)"
    by (auto simp: defs)
  have rn: "0 \<le> n \<longrightarrow>
      rows (gridSettings (updateGridSetting freshId bp st (U_rows n) None) bp) = n
      \<and> int (length (rowTracks (gridSettings (updateGridSetting freshId bp st (U_rows n) None) bp)))
          = rows (gridSettings (updateGridSetting freshId bp st (U_rows n) None) bp)"
    by (auto simp: defs)
  have ct: "colTracks (gridSettings (updateGridSetting freshId bp st (U_colTracks ts) None) bp) = ts
      \<and> cols (gridSettings (updateGridSetting freshId bp st (U_colTracks ts) None) bp)
          = int (length (colTracks (gridSettings (updateGridSetting freshId bp st (U_colTracks ts) None) bp)))"
    by (simp add: defs)
  have rt: "rowTracks (gridSettings (updateGridSetting freshId bp st (U_rowTracks ts) None) bp) = ts
      \<and> rows (gridSettings (updateGridSetting freshId bp st (U_rowTracks ts) None) bp)
          = int (length (rowTracks (gridSettings (updateGridSetting freshId bp st (U_rowTracks ts) None) bp)))"
    by (simp add: defs)
  show ?thesis
    unfolding Let_def using c4 r4 cn rn ct rt by blast
qed

theorem track_count_sync_witness:
  "length (colTracks (DEFAULT_GRID_SETTINGS 0 Sm)) = 4
   \<and> length (rowTracks (DEFAULT_GRID_SETTINGS 0 Sm)) = 4
   \<and> (0::int) \<le> 3
   \<and> map tid (colTracks (gridSettings (updateGridSetting (\<lambda>k. ''r'' @ showNat k) Sm
         \<lparr>items = [], gridSettings = DEFAULT_GRID_SETTINGS 0\<rparr> (U_cols 6) None) Sm))
       = [''track-0-0'', ''track-0-1'', ''track-0-2'', ''track-0-3'', ''r0'', ''r1'']
   \<and> map tunit (colTracks (gridSettings (updateGridSetting (\<lambda>k. ''r'' @ showNat k) Sm
         \<lparr>items = [], gridSettings = DEFAULT_GRID_SETTINGS 0\<rparr> (U_cols 6) None) Sm))
       = [Fr, Fr, Fr, Fr, Fr, Fr]
   \<and> map tid (colTracks (gridSettings (updateGridSetting (\<lambda>k. ''r'' @ showNat k) Sm
         \<lparr>items = [], gridSettings = DEFAULT_GRID_SETTINGS 0\<rparr> (U_cols 2) None) Sm))
       = [''track-0-0'', ''track-0-1'']
   \<and> map tid (rowTracks (gridSettings (updateGridSetting (\<lambda>k. ''r'' @ showNat k) Sm
         \<lparr>items = [], gridSettings = DEFAULT_GRID_SETTINGS 0\<rparr> (U_rows 3) None) Sm))
       = [''track-0-0'', ''track-0-1'', ''track-0-2'']
   \<and> rows (gridSettings (updateGridSetting (\<lambda>k. ''r'' @ showNat k) Sm
         \<lparr>items = [], gridSettings = DEFAULT_GRID_SETTINGS 0\<rparr> (U_rows 3) None) Sm) = 3"
  using track_count_sync [where bp = Sm and n = 3 and ts = "[]"
      and freshId = "\<lambda>k. ''r'' @ showNat k"
      and st = "\<lparr>items = [], gridSettings = DEFAULT_GRID_SETTINGS 0\<rparr>"]
  by (simp add: Let_def DEFAULT_GRID_SETTINGS_def createTracks_def updateGridSetting_def
        updateSettings_def falsyId_def addedTracks_def sliceTo_def showNat.simps digitChar_def
        upt_rec)

section \<open>Properties of the code generator\<close>

lemma headerStep_prefix:
  "headerStep f s (st\<lparr>code := p @ code st\<rparr>) bp
     = (headerStep f s st bp)\<lparr>code := p @ code (headerStep f s st bp)\<rparr>"
proof -
  define cc where "cc = (if \<not> isStandardTracks (colTracks (s bp))
             then ''grid-cols-['' @ getTrackString f (colTracks (s bp)) @ '']''
             else ''grid-cols-'' @ showInt (cols (s bp)))"
  define rc where "rc = (if \<not> isStandardTracks (rowTracks (s bp))
             then ''grid-rows-['' @ getTrackString f (rowTracks (s bp)) @ '']''
             else ''grid-rows-'' @ showInt (rows (s bp)))"
  note defs = headerStep_def Let_def cc_def [symmetric] rc_def [symmetric]
  consider (a) "previousCols st = Some cc" | (b) "previousCols st \<noteq> Some cc" by blast
  then show ?thesis
  proof cases
    case a
    consider (c) "previousGap st = Some (gap (s bp))" | (d) "previousGap st \<noteq> Some (gap (s bp))"
      by blast
    then show ?thesis
    proof cases
      case c
      show ?thesis
        by (cases "previousRows st = Some rc") (simp_all add: defs a c split del: if_split)
    next
      case d
      show ?thesis
        by (cases "previousRows st = Some rc") (simp_all add: defs a d split del: if_split)
    qed
  next
    case b
    consider (c) "previousGap st = Some (gap (s bp))" | (d) "previousGap st \<noteq> Some (gap (s bp))"
      by blast
    then show ?thesis
    proof cases
      case c
      show ?thesis
        by (cases "previousRows st = Some rc") (simp_all add: defs b c split del: if_split)
    next
      case d
      show ?thesis
        by (cases "previousRows st = Some rc") (simp_all add: defs b d split del: if_split)
    qed
  qed
qed

lemma foldl_headerStep_prefix:
  "foldl (headerStep f s) (st\<lparr>code := p @ code st\<rparr>) bps
     = (foldl (headerStep f s) st bps)\<lparr>code := p @ code (foldl (headerStep f s) st bps)\<rparr>"
proof (induction bps arbitrary: st)
  case Nil
  then show ?case by simp
next
  case (Cons bp bps)
  show ?case
    by (simp add: headerStep_prefix Cons.IH)
qed

lemma containerOpen_classes:
  \<open>containerOpen f classAttr s spaces isRoot =
     (if isRoot then spaces @ ''<div '' @ classAttr @ ''="grid''
      else newline @ spaces @ ''<div '' @ classAttr @ ''="grid w-full h-full'')
     @ containerClasses f s @ ''">'' @ newline\<close>
proof -
  let ?p = \<open>if isRoot then spaces @ ''<div '' @ classAttr @ ''="grid''
      else newline @ spaces @ ''<div '' @ classAttr @ ''="grid w-full h-full''\<close>
  let ?st = "\<lparr>code = [], previousCols = None, previousGap = None, previousRows = None\<rparr>"
  have "\<lparr>code = ?p, previousCols = None, previousGap = None, previousRows = None\<rparr>
          = ?st\<lparr>code := ?p @ code ?st\<rparr>"
    by simp
  then have "code (foldl (headerStep f s)
       \<lparr>code = ?p, previousCols = None, previousGap = None, previousRows = None\<rparr> BREAKPOINT_ORDER)
     = ?p @ code (foldl (headerStep f s) ?st BREAKPOINT_ORDER)"
    by (simp only: foldl_headerStep_prefix) simp
  then show ?thesis
    by (simp add: containerOpen_def containerClasses_def)
qed

text \<open>
  C10. With an empty root item list the generated code is the container alone: its
  opening tag, carrying \<open>grid\<close> and the class tokens of the settings, a line break and
  the closing tag, with no item markup between them; for the default settings that is the
  text given below. The earlier flat generator returns the container without any token.
\<close>

theorem empty_grid_code:
  \<open>generateTailwindCode numToString [] settings useClassName
     = ''<div '' @ (if useClassName then ''className'' else ''class'') @ ''="grid''
       @ containerClasses numToString settings @ ''">'' @ newline @ ''</div>''
   \<and> generateTailwindCode numToString [] (DEFAULT_GRID_SETTINGS t) False
     = ''<div class="grid grid-cols-1 gap-4 grid-rows-1 sm:grid-cols-4 sm:grid-rows-4">''
       @ newline @ ''</div>''
   \<and> generateTailwindCode_flat numToString [] settings = ''<div class="grid"></div>''\<close>
proof -
  have gen: \<open>generateTailwindCode numToString [] s u
     = ''<div '' @ (if u then ''className'' else ''class'') @ ''="grid''
       @ containerClasses numToString s @ ''">'' @ newline @ ''</div>''\<close> for s u
    by (simp add: generateTailwindCode_def generateGridContainer.simps enumerate_eq_zip
          containerOpen_classes)
  have std: "isStandardTracks (createTracks t n)" for n
    by (simp add: isStandardTracks_def createTracks_def list_all_iff)
  have "containerClasses numToString (DEFAULT_GRID_SETTINGS t)
          = '' grid-cols-1 gap-4 grid-rows-1 sm:grid-cols-4 sm:grid-rows-4''"
    by (simp add: containerClasses_def BREAKPOINT_ORDER_def headerStep_def Let_def
          DEFAULT_GRID_SETTINGS_def std prefixMap_def showInt_def showNat.simps digitChar_def)
  then show ?thesis
    using gen by (simp add: generateTailwindCode_flat_def)
qed

theorem empty_grid_code_witness:
  \<open>generateTailwindCode (\<lambda>r. ''1'') []
       (\<lambda>bp. \<lparr>cols = 3, rows = 2,
               colTracks = [\<lparr>tid = ''a'', tvalue = 1, tunit = Fr\<rparr>,
                            \<lparr>tid = ''b'', tvalue = 1, tunit = Auto\<rparr>,
                            \<lparr>tid = ''c'', tvalue = 1, tunit = Fr\<rparr>],
               rowTracks = createTracks 0 2, gap = 0\<rparr>) True
     = ''<div className="grid grid-cols-[1fr_auto_1fr] gap-0 grid-rows-2">'' @ newline @ ''</div>''\<close>
  using empty_grid_code [where useClassName = True and numToString = "\<lambda>r. ''1''" and t = 0
      and settings = "\<lambda>bp. \<lparr>cols = 3, rows = 2,
               colTracks = [\<lparr>tid = ''a'', tvalue = 1, tunit = Fr\<rparr>,
                            \<lparr>tid = ''b'', tvalue = 1, tunit = Auto\<rparr>,
                            \<lparr>tid = ''c'', tvalue = 1, tunit = Fr\<rparr>],
               rowTracks = createTracks 0 2, gap = 0\<rparr>"]
  by (simp add: containerClasses_def BREAKPOINT_ORDER_def headerStep_def Let_def
        isStandardTracks_def createTracks_def getTrackString_def unitName_def prefixMap_def
        showInt_def showNat.simps digitChar_def upt_rec)

section \<open>Properties of export and import\<close>

lemma copyTrack_ident: "copyTrack t = t"
  by (simp add: copyTrack_def)

lemma cloneGridSettings_apply: "cloneGridSettings settings bp = settings bp"
  by (cases bp)
     (simp_all add: cloneGridSettings_def BREAKPOINT_ORDER_def Let_def copyTrack_ident [abs_def])

lemma cloneGridSettings_ident: "cloneGridSettings settings = settings"
  by (rule ext) (rule cloneGridSettings_apply)

lemma sanitize_exported_layout:
  "sanitizeLayoutMap (Some (\<lambda>bp. Some (layoutToDoc (l bp)))) = l"
  by (rule ext)
     (simp add: sanitizeLayoutMap_Some_apply spreadLayout_def layoutToDoc_def orElse_def)

text \<open>
  Import does accept the documented format: with the settings under \<open>gridSettings\<close> it
  returns the exported settings and, for each exported root item, an item with the same
  id, color and layout and without \<open>subGrid\<close> and \<open>children\<close>, reflowed at the current
  breakpoint.
\<close>

lemma importPreset_of_gridSettings_document:
  "importPreset env bp
     \<lparr>p_items = Some (map itemToDoc list), p_settings = s, p_gridSettings = Some settings\<rparr>
   = Inr \<lparr>items = reflowOrders
                     (map (\<lambda>item. GridItem (item_id item) (color item) (layout item) None None) list)
                     bp,
          gridSettings = settings\<rparr>"
proof -
  have item: "d_id (itemToDoc item) = Some (item_id item)
      \<and> d_color (itemToDoc item) = Some (color item)
      \<and> d_layout (itemToDoc item) = Some (\<lambda>bp. Some (layoutToDoc (layout item bp)))" for item
    by (cases item) simp
  have "map (\<lambda>(index, item).
               GridItem (orElse (d_id item) (real (now env) + real index))
                        (orElse (d_color item) (COLORS ! (index mod length COLORS)))
                        (sanitizeLayoutMap (d_layout item)) None None)
            (enumerate 0 (map itemToDoc list))
        = map (\<lambda>item. GridItem (item_id item) (color item) (layout item) None None) list"
    by (rule nth_equalityI)
       (simp_all add: nth_enumerate_eq item orElse_def sanitize_exported_layout)
  then show ?thesis
    by (simp add: importPreset_def cloneGridSettings_ident)
qed

text \<open>
  C3. The claim is that importing what export wrote reproduces the tree. Export writes the
  settings under the key \<open>settings\<close>; import requires the key \<open>gridSettings\<close> and
  throws \<open>Invalid preset\<close> without it. So for every state the import of the exported
  document is rejected and no tree is reproduced.
\<close>

theorem import_rejects_export:
  "p_settings (handleExport st) = Some (gridSettings st)
   \<and> p_gridSettings (handleExport st) = None
   \<and> importPreset env bp (handleExport st) = Inl InvalidPreset"
  by (simp add: importPreset_def handleExport_def)

section \<open>Properties of the geometry\<close>

text \<open>
  On uniform tracks the position of a line is the step \<open>width + gap\<close> added to 0 once
  for each track before it, and the walk of \<open>positionFromCoords\<close> makes the same
  additions. Rounding is monotone and leaves a rounded value as it is, so the positions
  grow along the walk.
\<close>

lemma jadd_PosInf_iter:
  "st = PosInf \<or> (\<exists>s. st = Fin s) \<Longrightarrow> ((\<lambda>p. jadd p st) ^^ j) PosInf = PosInf"
  by (induction j) auto

lemma fl_sum_Fin:
  assumes "0 \<le> c" and "nearest c = c" and "0 \<le> s" and "fl (c + s) = Fin c'"
  shows "c \<le> c' \<and> nearest c' = c' \<and> nearest (c + s) = c'"
proof -
  have cs: "0 \<le> c + s" using assms(1,3) by simp
  have c': "c' = nearest (c + s)" and lt: "nearest (c + s) < pow2 1024"
    using assms(4) by (simp_all add: fl_nonneg [OF cs] split: if_splits)
  have "nearest c \<le> nearest (c + s)"
    using assms(1,3) by (intro nearest_mono) simp_all
  then have "c \<le> c'" by (simp add: c' assms(2))
  moreover have "nearest c' = c'"
    unfolding c' using cs lt by (rule nearest_idem)
  ultimately show ?thesis by (simp add: c')
qed

lemma iter_Fin_mono:
  "0 \<le> s \<Longrightarrow> 0 \<le> c \<Longrightarrow> nearest c = c \<Longrightarrow> ((\<lambda>p. jadd p (Fin s)) ^^ j) (Fin c) = Fin x \<Longrightarrow> c \<le> x"
proof (induction j arbitrary: c)
  case 0
  then show ?case by simp
next
  case (Suc j)
  have "((\<lambda>p. jadd p (Fin s)) ^^ Suc j) (Fin c)
          = ((\<lambda>p. jadd p (Fin s)) ^^ j) (jadd (Fin c) (Fin s))"
    by (simp only: funpow_Suc_right o_apply)
  then have it: "((\<lambda>p. jadd p (Fin s)) ^^ j) (fl (c + s)) = Fin x"
    using Suc.prems(4) by simp
  show ?case
  proof (cases "fl (c + s)")
    case (Fin c')
    then have "c \<le> c'" "nearest c' = c'"
      using fl_sum_Fin [OF Suc.prems(2,3,1)] by simp_all
    moreover have "c' \<le> x"
      using Suc.IH [of c'] Suc.prems(1,2) calculation it Fin by simp
    ultimately show ?thesis by simp
  next
    case PosInf
    then show ?thesis using it jadd_PosInf_iter [of "Fin s" j] by simp
  next
    case NaN
    then show ?thesis by (simp add: fl_not_NaN)
  next
    case NegInf
    then show ?thesis using Suc.prems(1,2) fl_nonneg_not_NegInf [of "c + s"] by simp
  qed
qed


lemma trackPositionLoop_uniform:
  "0 \<le> i \<Longrightarrow> index - 1 \<le> int n \<Longrightarrow>
     trackPositionLoop index (replicate n w) g i pos
       = ((\<lambda>p. jadd p (jadd (Fin w) (Fin g))) ^^ nat (index - 1 - i)) pos"
proof (induction index "replicate n w" g i pos rule: trackPositionLoop.induct)
  case (1 index g i pos)
  show ?case
  proof (cases "i < index - 1")
    case True
    have sz: "sizeAt (replicate n w) i = Fin w"
      using True "1.prems" by (simp add: sizeAt_def)
    have n: "nat (index - 1 - i) = Suc (nat (index - 1 - (i + 1)))"
      using True by simp
    have "trackPositionLoop index (replicate n w) g (i + 1) (jadd pos (jadd (Fin w) (Fin g)))
            = ((\<lambda>p. jadd p (jadd (Fin w) (Fin g))) ^^ nat (index - 1 - (i + 1)))
                (jadd pos (jadd (Fin w) (Fin g)))"
      using "1.hyps" [OF True] "1.prems" sz by simp
    then show ?thesis
      using True sz
      by (subst trackPositionLoop.simps) (simp only: n funpow_Suc_right o_apply if_True)
  next
    case False
    then show ?thesis
      by (subst trackPositionLoop.simps) simp
  qed
qed

lemma getTrackPosition_uniform:
  "index - 1 \<le> int n \<Longrightarrow>
     getTrackPosition index (replicate n w) g
       = ((\<lambda>p. jadd p (jadd (Fin w) (Fin g))) ^^ nat (index - 1)) (Fin 0)"
  using trackPositionLoop_uniform [of 0 index n w g "Fin 0"] by (simp add: getTrackPosition_def)

lemma startLineLoop_uniform:
  assumes "0 < w" and "0 \<le> g"
  shows "((\<lambda>p. jadd p (jadd (Fin w) (Fin g))) ^^ j) (Fin c) = Fin x \<Longrightarrow> 0 \<le> c \<Longrightarrow>
         nearest c = c \<Longrightarrow> j < k \<Longrightarrow> jlt (Fin x) (jadd (Fin x) (fl (w / 2))) \<Longrightarrow>
         startLineLoop (Fin x) g (replicate k w) (Fin c) start = start + int j"
proof (induction j arbitrary: c k start)
  case 0
  then obtain k' where k: "k = Suc k'" by (cases k) auto
  show ?case
    using 0 by (simp add: k)
next
  case (Suc j)
  then obtain k' where k: "k = Suc k'" and jk: "j < k'" by (cases k) auto
  have wg: "0 \<le> w + g" using assms by simp
  have half_le: "nearest (w / 2) \<le> nearest (w + g)"
    using assms by (intro nearest_mono) simp_all
  have it: "((\<lambda>p. jadd p (jadd (Fin w) (Fin g))) ^^ j) (jadd (Fin c) (fl (w + g))) = Fin x"
    using Suc.prems(1) by (simp only: funpow_Suc_right o_apply jadd.simps)
  show ?case
  proof (cases "pow2 1024 \<le> nearest (w + g)")
    case True
    then have "fl (w + g) = PosInf" using wg by (simp add: fl_nonneg)
    then show ?thesis
      using it jadd_PosInf_iter [of PosInf j] by simp
  next
    case False
    define s where "s = nearest (w + g)"
    have step: "fl (w + g) = Fin s" using wg False by (simp add: fl_nonneg s_def)
    have s0: "0 \<le> s" unfolding s_def using wg by (rule nearest_nonneg)
    have h0: "0 \<le> nearest (w / 2)" using assms(1) by (intro nearest_nonneg) simp
    have half: "fl (w / 2) = Fin (nearest (w / 2))"
      using assms(1) half_le False by (simp add: fl_nonneg)
    have it': "((\<lambda>p. jadd p (Fin s)) ^^ j) (fl (c + s)) = Fin x"
      using it by (simp add: step)
    show ?thesis
    proof (cases "fl (c + s)")
      case (Fin c')
      have c': "c \<le> c'" "nearest c' = c'" "nearest (c + s) = c'"
        using fl_sum_Fin [OF Suc.prems(2,3) s0 Fin] by simp_all
      have c'x: "c' \<le> x"
        using iter_Fin_mono [of s c' j x] s0 c' Suc.prems(2) it' Fin by simp
      have "nearest (c + nearest (w / 2)) \<le> nearest (c + s)"
        using Suc.prems(2) h0 half_le by (intro nearest_mono) (simp_all add: s_def)
      then have le: "nearest (c + nearest (w / 2)) \<le> x"
        using c' c'x by simp
      have lt1024: "\<not> pow2 1024 \<le> nearest (c + nearest (w / 2))"
      proof -
        have "nearest (c + s) < pow2 1024"
          using Fin Suc.prems(2) s0 by (simp add: fl_nonneg split: if_splits)
        then show ?thesis
          using \<open>nearest (c + nearest (w / 2)) \<le> nearest (c + s)\<close> by simp
      qed
      have test: "\<not> jlt (Fin x) (jadd (Fin c) (fl (w / 2)))"
        using le lt1024 Suc.prems(2) h0 by (simp add: half fl_nonneg)
      have "startLineLoop (Fin x) g (replicate k' w) (Fin c') (start + 1) = start + 1 + int j"
        using Suc.IH [of c' k' "start + 1"] it' Fin c' Suc.prems(2,5) jk
        by (simp add: step)
      then show ?thesis
        using test by (simp add: k step Fin)
    next
      case PosInf
      then show ?thesis using it' jadd_PosInf_iter [of "Fin s" j] by simp
    next
      case NaN
      then show ?thesis by (simp add: fl_not_NaN)
    next
      case NegInf
      then show ?thesis using Suc.prems(2) s0 fl_nonneg_not_NegInf [of "c + s"] by simp
    qed
  qed
qed

lemma axis_round_trip:
  assumes "0 < w" and "0 \<le> g" and "1 \<le> start" and "start \<le> int n"
    and "halfCounts (getTrackPosition start (replicate n w) g) w"
  shows "startLineLoop (getTrackPosition start (replicate n w) g) g (replicate n w) (Fin 0) 1 = start"
proof -
  have pos: "getTrackPosition start (replicate n w) g
               = ((\<lambda>p. jadd p (jadd (Fin w) (Fin g))) ^^ nat (start - 1)) (Fin 0)"
    using assms(4) by (intro getTrackPosition_uniform) simp
  obtain x where x: "getTrackPosition start (replicate n w) g = Fin x"
    using assms(5) by (cases "getTrackPosition start (replicate n w) g"; cases "fl (w / 2)")
      (simp_all add: halfCounts_def)
  have "startLineLoop (Fin x) g (replicate n w) (Fin 0) 1 = 1 + int (nat (start - 1))"
    using assms(3,4,5) pos x
    by (intro startLineLoop_uniform [OF assms(1,2)]) (simp_all add: nearest_0 halfCounts_def)
  then show ?thesis
    using assms(3) x by simp
qed

text \<open>
  C6 (as amended). For uniform tracks of positive size, one width for each of the
  \<open>totalCols\<close> columns and one height for each of the \<open>totalRows\<close> rows, a gap that is
  not negative, spans of at least 1 and a start cell at which the spans fit in the grid,
  and provided that half a track counts at the corner of the rectangle (\<open>left + width / 2\<close>
  is greater than \<open>left\<close> and \<open>top + height / 2\<close> is greater than \<open>top\<close>, as binary64
  computes them), \<open>positionFromCoords\<close> applied to the left and top of the rectangle of
  \<open>indicatorFrom\<close> returns the start cell.
\<close>

theorem uniform_round_trip:
  assumes "colWidths m = replicate (nat totalCols) w" and "rowHeights m = replicate (nat totalRows) h"
    and "0 < w" and "0 < h" and "0 \<le> gapPx m"
    and "1 \<le> cSpan" and "1 \<le> rSpan"
    and "1 \<le> cStart" and "cStart \<le> totalCols - cSpan + 1"
    and "1 \<le> rStart" and "rStart \<le> totalRows - rSpan + 1"
    and "halfCounts (left (indicatorFrom cStart rStart cSpan rSpan m)) w"
    and "halfCounts (top (indicatorFrom cStart rStart cSpan rSpan m)) h"
  shows "positionFromCoords (left (indicatorFrom cStart rStart cSpan rSpan m))
           (top (indicatorFrom cStart rStart cSpan rSpan m)) m cSpan rSpan totalCols totalRows
         = (cStart, rStart)"
proof -
  have c: "startLineLoop (getTrackPosition cStart (colWidths m) (gapPx m)) (gapPx m) (colWidths m)
             (Fin 0) 1 = cStart"
    unfolding assms(1) using assms(3,5,6,8,9,12)
    by (intro axis_round_trip) (simp_all add: indicatorFrom_def assms(1))
  have r: "startLineLoop (getTrackPosition rStart (rowHeights m) (gapPx m)) (gapPx m) (rowHeights m)
             (Fin 0) 1 = rStart"
    unfolding assms(2) using assms(4,5,7,10,11,13)
    by (intro axis_round_trip) (simp_all add: indicatorFrom_def assms(2))
  show ?thesis
    using assms(8-11) c r
    by (simp add: positionFromCoords_def indicatorFrom_def Let_def clamp_def)
qed

theorem uniform_round_trip_witness:
  "positionFromCoords
     (left (indicatorFrom 3 2 2 1 \<lparr>colWidths = replicate (nat 4) 70, rowHeights = replicate (nat 3) 40, gapPx = 16\<rparr>))
     (top (indicatorFrom 3 2 2 1 \<lparr>colWidths = replicate (nat 4) 70, rowHeights = replicate (nat 3) 40, gapPx = 16\<rparr>))
     \<lparr>colWidths = replicate (nat 4) 70, rowHeights = replicate (nat 3) 40, gapPx = 16\<rparr> 2 1 4 3 = (3, 2)
   \<and> left (indicatorFrom 3 2 2 1 \<lparr>colWidths = replicate (nat 4) 70, rowHeights = replicate (nat 3) 40, gapPx = 16\<rparr>)
       = Fin 172"
  using uniform_round_trip [where m = "\<lparr>colWidths = replicate (nat 4) 70, rowHeights = replicate (nat 3) 40, gapPx = 16\<rparr>"
      and totalCols = 4 and totalRows = 3 and w = 70 and h = 40 and cSpan = 2 and rSpan = 1
      and cStart = 3 and rStart = 2]
  by (simp add: indicatorFrom_def getTrackPosition_def trackPositionLoop.simps sizeAt_def
        numeral_eq_Suc halfCounts_def fl_numeral fl_0)

text \<open>
  Three uniform grids of three columns and two rows at which the round trip fails. With
  columns of width 0 and a gap of 8 the midpoint test \<open>x < currentX + width / 2\<close> fails
  at the track the rectangle starts at, and cell (1, 1) comes back as (2, 1). With columns
  of width 10 and a gap of -10 every line is at 0, and cell (2, 1) comes back as (1, 1).
  With columns of width \<open>1 / 2 ^ 60\<close> and a gap of 1 the left of cell (2, 1) is 1, and
  \<open>1 + 1 / 2 ^ 61\<close> rounds to 1, so the test fails at the second track and the cell
  comes back as (3, 1).
\<close>

lemma zero_width_example:
  "positionFromCoords
     (left (indicatorFrom 1 1 1 1 \<lparr>colWidths = [0, 0, 0], rowHeights = [40, 40], gapPx = 8\<rparr>))
     (top (indicatorFrom 1 1 1 1 \<lparr>colWidths = [0, 0, 0], rowHeights = [40, 40], gapPx = 8\<rparr>))
     \<lparr>colWidths = [0, 0, 0], rowHeights = [40, 40], gapPx = 8\<rparr> 1 1 3 2 = (2, 1)"
  by (simp add: positionFromCoords_def indicatorFrom_def getTrackPosition_def
        trackPositionLoop.simps clamp_def Let_def fl_numeral fl_0)

lemma negative_gap_example:
  "positionFromCoords
     (left (indicatorFrom 2 1 1 1 \<lparr>colWidths = [10, 10, 10], rowHeights = [40, 40], gapPx = - 10\<rparr>))
     (top (indicatorFrom 2 1 1 1 \<lparr>colWidths = [10, 10, 10], rowHeights = [40, 40], gapPx = - 10\<rparr>))
     \<lparr>colWidths = [10, 10, 10], rowHeights = [40, 40], gapPx = - 10\<rparr> 1 1 3 2 = (1, 1)"
  by (simp add: positionFromCoords_def indicatorFrom_def getTrackPosition_def
        trackPositionLoop.simps sizeAt_def clamp_def Let_def fl_numeral fl_0)

lemma absorbed_half_example:
  "positionFromCoords
     (left (indicatorFrom 2 1 1 1
        \<lparr>colWidths = [1 / 2 ^ 60, 1 / 2 ^ 60, 1 / 2 ^ 60], rowHeights = [40, 40], gapPx = 1\<rparr>))
     (top (indicatorFrom 2 1 1 1
        \<lparr>colWidths = [1 / 2 ^ 60, 1 / 2 ^ 60, 1 / 2 ^ 60], rowHeights = [40, 40], gapPx = 1\<rparr>))
     \<lparr>colWidths = [1 / 2 ^ 60, 1 / 2 ^ 60, 1 / 2 ^ 60], rowHeights = [40, 40], gapPx = 1\<rparr>
     1 1 3 2 = (3, 1)
   \<and> \<not> halfCounts (left (indicatorFrom 2 1 1 1
        \<lparr>colWidths = [1 / 2 ^ 60, 1 / 2 ^ 60, 1 / 2 ^ 60], rowHeights = [40, 40], gapPx = 1\<rparr>))
        (1 / 2 ^ 60)"
proof -
  define w :: real where "w = 1 / 2 ^ 60"
  have step: "fl (w + 1) = Fin 1"
    using fl_absorb [of "2 ^ 52" "- 52" "1 / 2 ^ 8"] by (simp add: w_def pow2_def)
  have half: "fl (w / 2) = Fin (w / 2)"
    using fl_exact [of 1 61] by (simp add: w_def)
  have a1: "fl (1 + w / 2) = Fin 1"
    using fl_absorb [of "2 ^ 52" "- 52" "1 / 2 ^ 9"] by (simp add: w_def pow2_def)
  have a2: "fl (2 + w / 2) = Fin 2"
    using fl_absorb [of "2 ^ 52" "- 51" "1 / 2 ^ 10"] by (simp add: w_def pow2_def)
  have small: "w < 1" "0 < w"
    by (simp_all add: w_def)
  have l: "getTrackPosition 2 [w, w, w] 1 = Fin 1"
    by (simp add: getTrackPosition_def trackPositionLoop.simps sizeAt_def step fl_1)
  have t: "getTrackPosition 1 [40, 40] 1 = Fin 0"
    by (simp add: getTrackPosition_def trackPositionLoop.simps)
  have "positionFromCoords
     (left (indicatorFrom 2 1 1 1 \<lparr>colWidths = [w, w, w], rowHeights = [40, 40], gapPx = 1\<rparr>))
     (top (indicatorFrom 2 1 1 1 \<lparr>colWidths = [w, w, w], rowHeights = [40, 40], gapPx = 1\<rparr>))
     \<lparr>colWidths = [w, w, w], rowHeights = [40, 40], gapPx = 1\<rparr> 1 1 3 2 = (3, 1)
   \<and> \<not> halfCounts (left (indicatorFrom 2 1 1 1
        \<lparr>colWidths = [w, w, w], rowHeights = [40, 40], gapPx = 1\<rparr>)) w"
    using small
    by (simp add: positionFromCoords_def indicatorFrom_def Let_def clamp_def l t
          halfCounts_def step half a1 a2 fl_1 fl_numeral)
  then show ?thesis
    unfolding w_def .
qed

theorem uniform_round_trip_counterexample:
  "positionFromCoords
     (left (indicatorFrom 1 1 1 1 \<lparr>colWidths = [0, 0, 0], rowHeights = [40, 40], gapPx = 8\<rparr>))
     (top (indicatorFrom 1 1 1 1 \<lparr>colWidths = [0, 0, 0], rowHeights = [40, 40], gapPx = 8\<rparr>))
     \<lparr>colWidths = [0, 0, 0], rowHeights = [40, 40], gapPx = 8\<rparr> 1 1 3 2 = (2, 1)
   \<and> positionFromCoords
     (left (indicatorFrom 2 1 1 1 \<lparr>colWidths = [10, 10, 10], rowHeights = [40, 40], gapPx = - 10\<rparr>))
     (top (indicatorFrom 2 1 1 1 \<lparr>colWidths = [10, 10, 10], rowHeights = [40, 40], gapPx = - 10\<rparr>))
     \<lparr>colWidths = [10, 10, 10], rowHeights = [40, 40], gapPx = - 10\<rparr> 1 1 3 2 = (1, 1)
   \<and> positionFromCoords
     (left (indicatorFrom 2 1 1 1
        \<lparr>colWidths = [1 / 2 ^ 60, 1 / 2 ^ 60, 1 / 2 ^ 60], rowHeights = [40, 40], gapPx = 1\<rparr>))
     (top (indicatorFrom 2 1 1 1
        \<lparr>colWidths = [1 / 2 ^ 60, 1 / 2 ^ 60, 1 / 2 ^ 60], rowHeights = [40, 40], gapPx = 1\<rparr>))
     \<lparr>colWidths = [1 / 2 ^ 60, 1 / 2 ^ 60, 1 / 2 ^ 60], rowHeights = [40, 40], gapPx = 1\<rparr>
     1 1 3 2 = (3, 1)
   \<and> \<not> halfCounts (left (indicatorFrom 2 1 1 1
        \<lparr>colWidths = [1 / 2 ^ 60, 1 / 2 ^ 60, 1 / 2 ^ 60], rowHeights = [40, 40], gapPx = 1\<rparr>))
        (1 / 2 ^ 60)"
  by (intro conjI zero_width_example negative_gap_example
        absorbed_half_example [THEN conjunct1] absorbed_half_example [THEN conjunct2])
section \<open>Properties of reflow\<close>



lemma jlt_asym: "jlt a b \<Longrightarrow> \<not> jlt b a"
  by (cases a; cases b) simp_all










lemma count_insertSorted:
  "length (filter P (insertSorted cmp x ys)) = length (filter P (x # ys))"
  by (induction ys) auto



lemma count_js_sort: "length (filter P (js_sort cmp xs)) = length (filter P xs)"
  by (induction xs) (simp_all add: js_sort_def count_insertSorted)

lemma length_js_sort: "length (js_sort cmp xs) = length xs"
  using count_js_sort [of "\<lambda>x. True" cmp xs] by simp


































end
